theory Spec2Isabelle
  imports Main
begin

section \<open>Values thrown by the JavaScript runtime\<close>

text \<open>
  A rejected promise carries either an \<open>Error\<close> object (message and optional stack) or
  some other thrown value, kept as the text \<open>String(value)\<close> gives for it.
\<close>

datatype js_error = Error_obj (message: string) (stack: "string option") | Thrown string

text \<open>
  What the program takes from the JavaScript runtime: \<open>JSON.parse\<close> at the two types it
  is used at, \<open>JSON.stringify\<close> of the metadata, \<open>String.prototype.trim\<close>, and the stack
  a fresh \<open>Error\<close> captures.
\<close>

record GitHubAsset =
  name :: string
  browser_download_url :: string

record GitHubRelease =
  tag_name :: string
  assets :: "GitHubAsset list option"

record ExecMeta =
  tag :: string
  downloadedAt :: string

record runtime =
  parse_release :: "string \<Rightarrow> js_error + GitHubRelease"
  parse_meta :: "string \<Rightarrow> js_error + ExecMeta"
  stringify_meta :: "ExecMeta \<Rightarrow> string"
  trim :: "string \<Rightarrow> string"
  capture_stack :: "string \<Rightarrow> string option"

definition new_Error :: "runtime \<Rightarrow> string \<Rightarrow> js_error" where
  "new_Error rt msg = Error_obj msg (capture_stack rt msg)"

fun errorText :: "js_error \<Rightarrow> string" where
  "errorText (Error_obj m s) = (case s of Some t \<Rightarrow> t | None \<Rightarrow> m)"
| "errorText (Thrown v) = v"

text \<open>The \<open>message\<close> the callers show: \<open>error instanceof Error ? error.message : String(error)\<close>.\<close>

fun error_message :: "js_error \<Rightarrow> string" where
  "error_message (Error_obj m s) = m"
| "error_message (Thrown v) = v"

subsection \<open>Template literals of a status code\<close>

definition digit_char :: "nat \<Rightarrow> char" where
  "digit_char d = ''0123456789'' ! d"

fun decimal :: "nat \<Rightarrow> string" where
  "decimal n = (if n < 10 then [digit_char n] else decimal (n div 10) @ [digit_char (n mod 10)])"

declare decimal.simps [simp del]

fun show_status :: "nat option \<Rightarrow> string" where
  "show_status None = ''undefined''"
| "show_status (Some n) = decimal n"

section \<open>The world outside the program\<close>

text \<open>
  A response as the callbacks read it: \<open>statusCode\<close> (optional in the typings),
  \<open>headers.location\<close> and the body that arrives before \<open>end\<close>.
\<close>

record response =
  statusCode :: "nat option"
  location :: "string option"
  body :: string

datatype reply = Refused js_error | Reply response

record request =
  req_url :: string
  req_headers :: "(string \<times> string) list"

text \<open>
  How writing a file at a path ends: the write finishes and the file is closed, the file
  cannot be opened, the write fails after some bytes, or closing reports an error. The
  world also says whether \<open>rename\<close> and \<open>chmod\<close> reject, and with what.
\<close>

datatype stream_outcome =
  Stream_ok | Open_failed js_error | Write_failed nat js_error | Close_failed js_error

record stored_file =
  content :: string
  mode :: nat

record world =
  net :: "string \<Rightarrow> reply"
  disk :: "string \<Rightarrow> stream_outcome"
  rename_rejects :: "js_error option"
  chmod_rejects :: "js_error option"
  clock :: string
  files :: "string \<rightharpoonup> stored_file"
  requests :: "request list"

type_synonym 'a io = "world \<Rightarrow> ((js_error + 'a) \<times> world) option"

definition return_io :: "'a \<Rightarrow> 'a io" where
  "return_io x w = Some (Inr x, w)"

definition throw_io :: "js_error \<Rightarrow> 'a io" where
  "throw_io e w = Some (Inl e, w)"

definition bind_io :: "'a io \<Rightarrow> ('a \<Rightarrow> 'b io) \<Rightarrow> 'b io" where
  "bind_io m f w =
     (case m w of
        None \<Rightarrow> None
      | Some (Inl e, w') \<Rightarrow> Some (Inl e, w')
      | Some (Inr x, w') \<Rightarrow> f x w')"

definition catch_io :: "'a io \<Rightarrow> (js_error \<Rightarrow> 'a io) \<Rightarrow> 'a io" where
  "catch_io m h w =
     (case m w of
        None \<Rightarrow> None
      | Some (Inl e, w') \<Rightarrow> h e w'
      | Some (Inr x, w') \<Rightarrow> Some (Inr x, w'))"

section \<open>HTTP helpers\<close>

definition USER_AGENT :: string where
  "USER_AGENT = ''php-cs-fixer-lsp-vscode''"

definition json_headers :: "(string \<times> string) list" where
  "json_headers = [(''user-agent'', USER_AGENT), (''accept'', ''application/vnd.github+json'')]"

definition download_headers :: "(string \<times> string) list" where
  "download_headers = [(''user-agent'', USER_AGENT)]"

definition sent :: "string \<Rightarrow> (string \<times> string) list \<Rightarrow> world \<Rightarrow> world" where
  "sent url hs w = w\<lparr>requests := requests w @ [\<lparr>req_url = url, req_headers = hs\<rparr>]\<rparr>"

text \<open>
  \<open>statusCode && statusCode >= 300 && statusCode < 400 && headers.location\<close>: the
  address to follow, when all four are truthy.
\<close>

definition redirect_target :: "response \<Rightarrow> string option" where
  "redirect_target res =
     (case statusCode res of
        None \<Rightarrow> None
      | Some s \<Rightarrow>
          if s \<noteq> 0 \<and> 300 \<le> s \<and> s < 400 then
            (case location res of
               None \<Rightarrow> None
             | Some l \<Rightarrow> if l \<noteq> [] then Some l else None)
          else None)"

partial_function (option) fetchJson ::
  "runtime \<Rightarrow> (string \<Rightarrow> js_error + 'j) \<Rightarrow> string \<Rightarrow> world \<Rightarrow> ((js_error + 'j) \<times> world) option"
where
  "fetchJson rt parse url w =
     (case net w url of
        Refused e \<Rightarrow> Some (Inl e, sent url json_headers w)
      | Reply res \<Rightarrow>
          (case redirect_target res of
             Some l \<Rightarrow> fetchJson rt parse l (sent url json_headers w)
           | None \<Rightarrow>
               if statusCode res \<noteq> Some 200 then
                 Some (Inl (new_Error rt (''GitHub API responded with status ''
                                          @ show_status (statusCode res))),
                       sent url json_headers w)
               else
                 (case parse (body res) of
                    Inl e \<Rightarrow> Some (Inl e, sent url json_headers w)
                  | Inr j \<Rightarrow> Some (Inr j, sent url json_headers w))))"

text \<open>
  \<open>createWriteStream(path)\<close> with the response piped into it. A file that is already
  there is truncated and keeps its mode; a new one gets the default mode. The reports to
  the optional \<open>progress\<close> sink decide nothing and are not part of the state.
\<close>

definition default_mode :: nat where
  "default_mode = 6 * 64 + 6 * 8 + 6"

definition written :: "string \<Rightarrow> string \<Rightarrow> world \<Rightarrow> world" where
  "written path bytes w =
     w\<lparr>files := (files w)(path \<mapsto>
          \<lparr>content = bytes,
           mode = (case files w path of None \<Rightarrow> default_mode | Some f \<Rightarrow> mode f)\<rparr>)\<rparr>"

definition pipe_to_file :: "string \<Rightarrow> string \<Rightarrow> unit io" where
  "pipe_to_file path bytes w =
     (case disk w path of
        Stream_ok \<Rightarrow> Some (Inr (), written path bytes w)
      | Open_failed e \<Rightarrow> Some (Inl e, w)
      | Write_failed k e \<Rightarrow> Some (Inl e, written path (take k bytes) w)
      | Close_failed e \<Rightarrow> Some (Inl e, written path bytes w))"

partial_function (option) download :: "runtime \<Rightarrow> string \<Rightarrow> string \<Rightarrow> world \<Rightarrow> ((js_error + unit) \<times> world) option"
where
  "download rt url path w =
     (case net w url of
        Refused e \<Rightarrow> Some (Inl e, sent url download_headers w)
      | Reply res \<Rightarrow>
          (case redirect_target res of
             Some l \<Rightarrow> download rt l path (sent url download_headers w)
           | None \<Rightarrow>
               if statusCode res \<noteq> Some 200 then
                 Some (Inl (new_Error rt (''Download failed with status ''
                                          @ show_status (statusCode res))),
                       sent url download_headers w)
               else pipe_to_file path (body res) (sent url download_headers w)))"


section \<open>Release lookup and local files\<close>

record Asset =
  asset_tag :: string
  asset_url :: string

definition releases_url :: "string \<Rightarrow> string" where
  "releases_url repo = ''https://api.github.com/repos/'' @ repo @ ''/releases/latest''"

text \<open>\<open>release.assets?.find((item) => item.name === name)\<close>\<close>

definition find_asset :: "GitHubRelease \<Rightarrow> string \<Rightarrow> GitHubAsset option" where
  "find_asset release nm =
     (case assets release of
        None \<Rightarrow> None
      | Some items \<Rightarrow> find (\<lambda>item. name item = nm) items)"

definition fetchLatestReleaseAsset :: "runtime \<Rightarrow> string \<Rightarrow> string \<Rightarrow> Asset io" where
  "fetchLatestReleaseAsset rt repo nm =
     bind_io (fetchJson rt (parse_release rt) (releases_url repo)) (\<lambda>release.
       case find_asset release nm of
         None \<Rightarrow> throw_io (new_Error rt ''Latest release missing expected asset'')
       | Some asset \<Rightarrow>
           return_io \<lparr>asset_tag = tag_name release, asset_url = browser_download_url asset\<rparr>)"

definition fileExists :: "string \<Rightarrow> bool io" where
  "fileExists path w = Some (Inr (files w path \<noteq> None), w)"

definition readJson :: "(string \<Rightarrow> js_error + 'j) \<Rightarrow> string \<Rightarrow> 'j option io" where
  "readJson parse path w =
     (case files w path of
        None \<Rightarrow> Some (Inr None, w)
      | Some f \<Rightarrow>
          (case parse (content f) of
             Inl e \<Rightarrow> Some (Inr None, w)
           | Inr v \<Rightarrow> Some (Inr (Some v), w)))"

subsection \<open>The file-system calls of the installer\<close>

text \<open>
  Directories are not part of the state: \<open>mkdir\<close> with \<open>recursive: true\<close> succeeds
  whether or not the directory is there, and changes no file.
  \<open>rename\<close> and \<open>chmod\<close> reject when the world says so, and when the path they act on
  does not exist; a rejected call changes nothing. \<open>rename\<close> replaces whatever is at the
  target in one step. \<open>writeFile\<close> opens, writes and closes the file, so it ends the way
  a write stream on that path does. \<open>path.join\<close> is taken on paths that need no
  normalisation.
\<close>

definition join :: "string \<Rightarrow> string \<Rightarrow> string" where
  "join a b = a @ ''/'' @ b"

definition mkdir :: "string \<Rightarrow> unit io" where
  "mkdir d w = Some (Inr (), w)"

definition ENOENT :: "runtime \<Rightarrow> js_error" where
  "ENOENT rt = new_Error rt ''ENOENT: no such file or directory''"

definition rename :: "runtime \<Rightarrow> string \<Rightarrow> string \<Rightarrow> unit io" where
  "rename rt src dst w =
     (case rename_rejects w of
        Some e \<Rightarrow> Some (Inl e, w)
      | None \<Rightarrow>
          (case files w src of
             None \<Rightarrow> Some (Inl (ENOENT rt), w)
           | Some f \<Rightarrow> Some (Inr (), w\<lparr>files := (files w)(src := None, dst \<mapsto> f)\<rparr>)))"

definition chmod :: "runtime \<Rightarrow> string \<Rightarrow> nat \<Rightarrow> unit io" where
  "chmod rt path m w =
     (case chmod_rejects w of
        Some e \<Rightarrow> Some (Inl e, w)
      | None \<Rightarrow>
          (case files w path of
             None \<Rightarrow> Some (Inl (ENOENT rt), w)
           | Some f \<Rightarrow> Some (Inr (), w\<lparr>files := (files w)(path \<mapsto> f\<lparr>mode := m\<rparr>)\<rparr>)))"

definition writeFile :: "string \<Rightarrow> string \<Rightarrow> unit io" where
  "writeFile path data = pipe_to_file path data"

definition mode_755 :: nat where
  "mode_755 = 7 * 64 + 5 * 8 + 5"

section \<open>The installer of the extension class\<close>

definition SERVER_REPO :: string where
  "SERVER_REPO = ''balthild/php-cs-fixer-lsp''"

definition SERVER_ASSET :: string where
  "SERVER_ASSET = ''php-cs-fixer-lsp.phar''"

text \<open>\<open>a && await b\<close>: the right operand runs only when the left one holds.\<close>

definition and_then :: "bool \<Rightarrow> bool io \<Rightarrow> bool io" where
  "and_then a b = (if a then b else return_io False)"

text \<open>\<open>current?.tag === latest.tag\<close>\<close>

definition same_tag :: "ExecMeta option \<Rightarrow> string \<Rightarrow> bool" where
  "same_tag current t = (case current of None \<Rightarrow> False | Some m \<Rightarrow> tag m = t)"

text \<open>
  The paths \<open>downloadServerExec\<close> computes from \<open>context.globalStorageUri.fsPath\<close>.
\<close>

definition storageDir :: "string \<Rightarrow> string" where
  "storageDir storage = join storage ''server''"

definition execPath :: "string \<Rightarrow> string" where
  "execPath storage = join (storageDir storage) SERVER_ASSET"

definition metaPath :: "string \<Rightarrow> string" where
  "metaPath storage = join (storageDir storage) (SERVER_ASSET @ ''.json'')"

text \<open>
  The last part of \<open>downloadServerExec\<close>, from \<open>withProgress\<close> to the final
  \<open>return\<close>: download to the temporary path, rename, mark executable, write the
  metadata. Progress reports go to the editor and decide nothing; they are left out.
\<close>

definition refresh :: "runtime \<Rightarrow> Asset \<Rightarrow> string \<Rightarrow> string \<Rightarrow> string io" where
  "refresh rt latest exec meta =
     bind_io
       (let execTmp = exec @ ''.tmp'' in
        bind_io (download rt (asset_url latest) execTmp) (\<lambda>_.
        bind_io (rename rt execTmp exec) (\<lambda>_.
        chmod rt exec mode_755))) (\<lambda>_.
     bind_io (\<lambda>w. writeFile meta
                (stringify_meta rt \<lparr>tag = asset_tag latest, downloadedAt = clock w\<rparr>) w) (\<lambda>_.
     return_io exec))"

definition downloadServerExec :: "runtime \<Rightarrow> string \<Rightarrow> bool \<Rightarrow> string io" where
  "downloadServerExec rt storage update =
     bind_io (mkdir (storageDir storage)) (\<lambda>_.
     bind_io (and_then (\<not> update) (fileExists (execPath storage))) (\<lambda>present.
       if present then return_io (execPath storage)
       else
         bind_io (readJson (parse_meta rt) (metaPath storage)) (\<lambda>current.
         bind_io (fetchLatestReleaseAsset rt SERVER_REPO SERVER_ASSET) (\<lambda>latest.
         bind_io (and_then (same_tag current (asset_tag latest))
                    (fileExists (execPath storage))) (\<lambda>fresh.
           if fresh then return_io (execPath storage)
           else refresh rt latest (execPath storage) (metaPath storage))))))"

section \<open>The single-file variant of the extension\<close>

text \<open>
  The repository also holds the extension written as one module, with helpers of its own:
  \<open>getJson\<close>, \<open>downloadToFile\<close>, \<open>downloadBinary\<close>, \<open>fetchLatestRelease\<close>,
  \<open>readMeta\<close> and \<open>ensureDownloadedBinary\<close>. Its \<open>fileExists\<close> is the one above.
\<close>

definition GH_OWNER :: string where
  "GH_OWNER = ''balthild''"

definition GH_REPO :: string where
  "GH_REPO = ''php-cs-fixer-lsp''"

definition ASSET_NAME :: string where
  "ASSET_NAME = ''php-cs-fixer-lsp.phar''"

definition META_FILENAME :: string where
  "META_FILENAME = ''meta.json''"

partial_function (option) getJson ::
  "runtime \<Rightarrow> (string \<Rightarrow> js_error + 'j) \<Rightarrow> string \<Rightarrow> world \<Rightarrow> ((js_error + 'j) \<times> world) option"
where
  "getJson rt parse url w =
     (case net w url of
        Refused e \<Rightarrow> Some (Inl e, sent url json_headers w)
      | Reply res \<Rightarrow>
          (case redirect_target res of
             Some l \<Rightarrow> getJson rt parse l (sent url json_headers w)
           | None \<Rightarrow>
               if statusCode res \<noteq> Some 200 then
                 Some (Inl (new_Error rt (''GitHub API responded with status ''
                                          @ show_status (statusCode res))),
                       sent url json_headers w)
               else
                 (case parse (body res) of
                    Inl e \<Rightarrow> Some (Inl e, sent url json_headers w)
                  | Inr j \<Rightarrow> Some (Inr j, sent url json_headers w))))"

partial_function (option) downloadToFile ::
  "runtime \<Rightarrow> string \<Rightarrow> string \<Rightarrow> world \<Rightarrow> ((js_error + unit) \<times> world) option"
where
  "downloadToFile rt url destination w =
     (case net w url of
        Refused e \<Rightarrow> Some (Inl e, sent url download_headers w)
      | Reply res \<Rightarrow>
          (case redirect_target res of
             Some l \<Rightarrow> downloadToFile rt l destination (sent url download_headers w)
           | None \<Rightarrow>
               if statusCode res \<noteq> Some 200 then
                 Some (Inl (new_Error rt (''Download failed with status ''
                                          @ show_status (statusCode res))),
                       sent url download_headers w)
               else pipe_to_file destination (body res) (sent url download_headers w)))"

definition downloadBinary :: "runtime \<Rightarrow> string \<Rightarrow> string \<Rightarrow> unit io" where
  "downloadBinary rt url destination =
     (let tempPath = destination @ ''.tmp'' in
      bind_io (downloadToFile rt url tempPath) (\<lambda>_.
      bind_io (rename rt tempPath destination) (\<lambda>_.
      chmod rt destination mode_755)))"

record Latest =
  latest_tag :: string
  downloadUrl :: string

text \<open>\<open>body.assets ?? []\<close>, then \<open>find\<close>.\<close>

definition latest_release_url :: string where
  "latest_release_url =
     ''https://api.github.com/repos/'' @ GH_OWNER @ ''/'' @ GH_REPO @ ''/releases/latest''"

definition fetchLatestRelease :: "runtime \<Rightarrow> Latest io" where
  "fetchLatestRelease rt =
     bind_io (getJson rt (parse_release rt) latest_release_url) (\<lambda>body.
       case find (\<lambda>item. name item = ASSET_NAME)
              (case assets body of None \<Rightarrow> [] | Some items \<Rightarrow> items) of
         None \<Rightarrow> throw_io (new_Error rt ''Latest release missing expected asset'')
       | Some asset \<Rightarrow>
           return_io \<lparr>latest_tag = tag_name body, downloadUrl = browser_download_url asset\<rparr>)"

definition readMeta :: "runtime \<Rightarrow> string \<Rightarrow> ExecMeta option io" where
  "readMeta rt path w =
     (case files w path of
        None \<Rightarrow> Some (Inr None, w)
      | Some f \<Rightarrow>
          (case parse_meta rt (content f) of
             Inl e \<Rightarrow> Some (Inr None, w)
           | Inr v \<Rightarrow> Some (Inr (Some v), w)))"

text \<open>The paths \<open>ensureDownloadedBinary\<close> computes; its storage directory is the same.\<close>

definition binaryPath :: "string \<Rightarrow> string" where
  "binaryPath storage = join (storageDir storage) ASSET_NAME"

definition metaPath_single :: "string \<Rightarrow> string" where
  "metaPath_single storage = join (storageDir storage) META_FILENAME"

text \<open>
  The last part of \<open>ensureDownloadedBinary\<close>, from \<open>withProgress\<close> on.
\<close>

definition refresh_single :: "runtime \<Rightarrow> Latest \<Rightarrow> string \<Rightarrow> string \<Rightarrow> string io" where
  "refresh_single rt latest binary meta =
     bind_io (downloadBinary rt (downloadUrl latest) binary) (\<lambda>_.
     bind_io (\<lambda>w. writeFile meta
                (stringify_meta rt \<lparr>tag = latest_tag latest, downloadedAt = clock w\<rparr>) w) (\<lambda>_.
     return_io binary))"

text \<open>
  The \<open>try\<close> around the release lookup either leaves the function with the path of the
  binary that is there (\<open>Inl\<close>) or goes on with the release found (\<open>Inr\<close>).
\<close>

definition ensureDownloadedBinary :: "runtime \<Rightarrow> string \<Rightarrow> bool \<Rightarrow> string io" where
  "ensureDownloadedBinary rt storage force =
     bind_io (mkdir (storageDir storage)) (\<lambda>_.
     bind_io (readMeta rt (metaPath_single storage)) (\<lambda>cachedMeta.
     bind_io
       (catch_io
          (bind_io (fetchLatestRelease rt) (\<lambda>latest. return_io (Inr latest)))
          (\<lambda>error.
             bind_io (fileExists (binaryPath storage)) (\<lambda>present.
               if present then return_io (Inl (binaryPath storage)) else throw_io error)))
       (\<lambda>looked_up.
          case looked_up of
            Inl early \<Rightarrow> return_io early
          | Inr latest \<Rightarrow>
              bind_io (and_then (\<not> force \<and> same_tag cachedMeta (latest_tag latest))
                         (fileExists (binaryPath storage))) (\<lambda>fresh.
                if fresh then return_io (binaryPath storage)
                else refresh_single rt latest (binaryPath storage)
                       (metaPath_single storage)))))"

text \<open>
  The formatting middleware of this variant writes to the module-level \<open>outputChannel\<close>,
  which may be undefined.
\<close>

definition provideDocumentFormattingEdits_single ::
  "'d \<Rightarrow> 'o \<Rightarrow> 't \<Rightarrow> ('d \<Rightarrow> 'o \<Rightarrow> 't \<Rightarrow> js_error + 'e option) \<Rightarrow> string list option
   \<Rightarrow> (js_error + 'e option) \<times> string list option"
where
  "provideDocumentFormattingEdits_single document options token next outputChannel =
     (case next document options token of
        Inr edits \<Rightarrow> (Inr edits, outputChannel)
      | Inl error \<Rightarrow>
          (Inr None,
           (case outputChannel of
              None \<Rightarrow> None
            | Some lines \<Rightarrow>
                Some (lines @ [''[formatting] '' @ error_message error]
                      @ (case error of
                           Error_obj m (Some s) \<Rightarrow> if s \<noteq> [] then [s] else []
                         | _ \<Rightarrow> [])))))"

section \<open>The language client and its lifecycle\<close>

text \<open>
  The client library is outside the program. What the program sees of it: a client is
  made from a command and arguments and started; \<open>stop\<close> is awaited with a timeout and
  may reject; while it is awaited the connection may close, for which the library asks
  the \<open>closed\<close> handler; \<open>dispose\<close> is awaited too and may reject.
\<close>

record LanguageClient =
  command :: string
  args :: "string list"

datatype ErrorAction = Continue | Shutdown

datatype CloseAction = DoNotRestart | Restart

record CloseHandlerResult =
  action :: CloseAction
  handled :: bool

datatype event =
  Client_started LanguageClient | Stop_called nat | Close_reported CloseHandlerResult
  | Dispose_called

record host =
  serverExec :: string
  serverArgs :: "string list"
  globalStorage :: string
  stop_rejects :: "js_error option"
  closes_while_stopping :: bool
  dispose_rejects :: "js_error option"

record extension =
  sys :: world
  output_lines :: "string list"
  errorMessages :: "string list"
  informationMessages :: "string list"
  client :: "LanguageClient option"
  restarting :: bool
  events :: "event list"


text \<open>The two handlers of \<open>errorHandler\<close>: \<open>error\<close> and \<open>closed\<close>.\<close>

definition error_handler :: ErrorAction where
  "error_handler = Continue"


definition provideDocumentFormattingEdits ::
  "'d \<Rightarrow> 'o \<Rightarrow> 't \<Rightarrow> ('d \<Rightarrow> 'o \<Rightarrow> 't \<Rightarrow> js_error + 'e option) \<Rightarrow> extension
   \<Rightarrow> (js_error + 'e option) \<times> extension"
where
  "provideDocumentFormattingEdits document options token next st =
     (case next document options token of
        Inr edits \<Rightarrow> (Inr edits, st)
      | Inl error \<Rightarrow> (Inr None, st\<lparr>output_lines := output_lines st @ [errorText error]\<rparr>))"





definition downloadServer :: "runtime \<Rightarrow> host \<Rightarrow> extension \<Rightarrow> extension option" where
  "downloadServer rt h st =
     (case downloadServerExec rt (globalStorage h) True (sys st) of
        None \<Rightarrow> None
      | Some (Inr path, w) \<Rightarrow>
          Some (st\<lparr>sys := w,
                   informationMessages := informationMessages st
                     @ [''php-cs-fixer-lsp downloaded to '' @ path]\<rparr>)
      | Some (Inl error, w) \<Rightarrow>
          Some (st\<lparr>sys := w,
                   errorMessages := errorMessages st
                     @ [''php-cs-fixer-lsp failed to download: '' @ error_message error],
                   output_lines := output_lines st
                     @ [''download failed'', errorText error]\<rparr>))"


section \<open>What the properties speak about\<close>

subsection \<open>Responses and redirect chains\<close>

text \<open>
  A status in the 2xx range; a redirect (a status from 300 to 399 with a location header);
  and a chain of redirects from \<open>u\<close> through the addresses \<open>vs\<close>, each hop naming the
  next address, that ends in a 200 response with the given payload.
\<close>

definition is_2xx :: "nat option \<Rightarrow> bool" where
  "is_2xx st = (case st of None \<Rightarrow> False | Some s \<Rightarrow> 200 \<le> s \<and> s < 300)"

definition is_redirect :: "response \<Rightarrow> bool" where
  "is_redirect res =
     (case statusCode res of
        None \<Rightarrow> False
      | Some s \<Rightarrow> 300 \<le> s \<and> s < 400 \<and> location res \<noteq> None)"

fun chain :: "(string \<Rightarrow> reply) \<Rightarrow> string \<Rightarrow> string list \<Rightarrow> string \<Rightarrow> bool" where
  "chain nt u [] payload =
     (case nt u of
        Refused e \<Rightarrow> False
      | Reply res \<Rightarrow> statusCode res = Some 200 \<and> body res = payload)"
| "chain nt u (v # vs) payload =
     (case nt u of
        Refused e \<Rightarrow> False
      | Reply res \<Rightarrow>
          (case statusCode res of
             None \<Rightarrow> False
           | Some s \<Rightarrow> 300 \<le> s \<and> s < 400 \<and> location res = Some v \<and> v \<noteq> [])
          \<and> chain nt v vs payload)"

text \<open>The world after one request to each of the addresses \<open>us\<close>, all with the headers \<open>hs\<close>.\<close>

definition asked :: "(string \<times> string) list \<Rightarrow> string list \<Rightarrow> world \<Rightarrow> world" where
  "asked hs us w =
     w\<lparr>requests := requests w @ map (\<lambda>u. \<lparr>req_url = u, req_headers = hs\<rparr>) us\<rparr>"

subsection \<open>Observing a run\<close>

text \<open>
  The addresses a binary download was requested from are the requests sent with the
  download headers. Two worlds have the same surroundings when network, disk, clock and
  the outcomes of \<open>rename\<close> and \<open>chmod\<close> agree; a run is quiet when it also leaves
  every file alone and requests no download.
\<close>

definition downloads :: "world \<Rightarrow> string list" where
  "downloads w = map req_url (filter (\<lambda>r. req_headers r = download_headers) (requests w))"

definition same_outside :: "world \<Rightarrow> world \<Rightarrow> bool" where
  "same_outside w w' =
     (net w' = net w \<and> disk w' = disk w \<and> clock w' = clock w
      \<and> rename_rejects w' = rename_rejects w \<and> chmod_rejects w' = chmod_rejects w)"

definition quiet :: "world \<Rightarrow> world \<Rightarrow> bool" where
  "quiet w w' = (same_outside w w' \<and> files w' = files w \<and> downloads w' = downloads w)"

definition touched_only :: "string \<Rightarrow> world \<Rightarrow> world \<Rightarrow> bool" where
  "touched_only path w w' =
     (same_outside w w' \<and> (\<forall>p. p \<noteq> path \<longrightarrow> files w' p = files w p))"

text \<open>
  Bytes are complete when they are the whole body of some 200 response of the network.
  A path is installed when nothing is there, or a complete file with mode 0o755.
\<close>

definition complete :: "world \<Rightarrow> string \<Rightarrow> bool" where
  "complete w bytes =
     (\<exists>u res. net w u = Reply res \<and> statusCode res = Some 200 \<and> body res = bytes)"

definition fresh_binary :: "world \<Rightarrow> stored_file option \<Rightarrow> bool" where
  "fresh_binary w entry =
     (\<exists>bytes. complete w bytes \<and> entry = Some \<lparr>content = bytes, mode = mode_755\<rparr>)"

text \<open>
  The steps after the network all succeed: the write to the temporary path, the rename,
  the chmod and the write of the metadata.
\<close>

definition steps_succeed :: "world \<Rightarrow> string \<Rightarrow> string \<Rightarrow> bool" where
  "steps_succeed w final meta =
     (disk w (final @ ''.tmp'') = Stream_ok \<and> rename_rejects w = None
      \<and> chmod_rejects w = None \<and> disk w meta = Stream_ok)"

text \<open>
  How an install may leave the final path: with the entry it had, or with a complete file
  that came from the temporary path, which is then gone; such a file has mode 0o755, or
  the install ended with the error of \<open>chmod\<close>.
\<close>

definition settled :: "world \<Rightarrow> js_error + string \<Rightarrow> world \<Rightarrow> string \<Rightarrow> bool" where
  "settled w r w' final =
     (files w' final = files w final
      \<or> (\<exists>f. files w' final = Some f \<and> complete w (content f)
             \<and> files w' (final @ ''.tmp'') = None
             \<and> (mode f = mode_755 \<or> (\<exists>e. chmod_rejects w = Some e \<and> r = Inl e))))"

definition installed :: "world \<Rightarrow> string \<Rightarrow> bool" where
  "installed w path = (files w path = None \<or> fresh_binary w (files w path))"

text \<open>
  What a finished download into \<open>tmp\<close> has done: it touched no other file, it requested
  the address first, and when it succeeded the file at \<open>tmp\<close> is complete.
\<close>

definition download_ok ::
  "string \<Rightarrow> string \<Rightarrow> world \<Rightarrow> ((js_error + unit) \<times> world) \<Rightarrow> bool"
where
  "download_ok url tmp w y =
     (touched_only tmp w (snd y) \<and>
      (\<exists>rest. downloads (snd y) = downloads w @ url # rest) \<and>
      (\<forall>u. fst y = Inr u \<longrightarrow> (\<exists>f. files (snd y) tmp = Some f \<and> complete w (content f))))"

text \<open>What \<open>readJson\<close> and \<open>readMeta\<close> yield for a path.\<close>

definition stored_json :: "(string \<Rightarrow> js_error + 'j) \<Rightarrow> world \<Rightarrow> string \<Rightarrow> 'j option" where
  "stored_json parse w path =
     (case files w path of
        None \<Rightarrow> None
      | Some f \<Rightarrow> (case parse (content f) of Inl e \<Rightarrow> None | Inr v \<Rightarrow> Some v))"

definition observe ::
  "string \<Rightarrow> ((js_error + 'a) \<times> world) option
   \<Rightarrow> ((js_error + 'a) \<times> string list \<times> stored_file option) option"
where
  "observe path m = map_option (\<lambda>(r, w). (r, downloads w, files w path)) m"

subsection \<open>Example worlds\<close>

text \<open>The example runtime trims blanks, the only white space in the examples.\<close>

definition strip_blanks :: "string \<Rightarrow> string" where
  "strip_blanks s =
     rev (dropWhile (\<lambda>c. c = CHR '' '') (rev (dropWhile (\<lambda>c. c = CHR '' '') s)))"

definition ex_rt :: runtime where
  "ex_rt =
     \<lparr>parse_release = (\<lambda>s.
        if s = ''{release v1.2.0}''
        then Inr \<lparr>tag_name = ''v1.2.0'',
                  assets = Some [\<lparr>name = ''php-cs-fixer-lsp.phar'',
                                  browser_download_url = ''https://example.org/phar''\<rparr>]\<rparr>
        else Inl (Thrown ''SyntaxError'')),
      parse_meta = (\<lambda>s.
        if s = ''{v1.1.0}'' then Inr \<lparr>tag = ''v1.1.0'', downloadedAt = ''before''\<rparr>
        else if s = ''{v1.2.0}'' then Inr \<lparr>tag = ''v1.2.0'', downloadedAt = ''before''\<rparr>
        else Inl (Thrown ''SyntaxError'')),
      stringify_meta = (\<lambda>m. ''{'' @ tag m @ ''}''),
      trim = strip_blanks,
      capture_stack = (\<lambda>m. None)\<rparr>"

definition ex_net :: "string \<Rightarrow> reply" where
  "ex_net url =
     (if url = latest_release_url
      then Reply \<lparr>statusCode = Some 200, location = None, body = ''{release v1.2.0}''\<rparr>
      else if url = ''https://example.org/phar''
      then Reply \<lparr>statusCode = Some 302, location = Some ''https://cdn.example.org/phar'',
                  body = []\<rparr>
      else if url = ''https://cdn.example.org/phar''
      then Reply \<lparr>statusCode = Some 200, location = None, body = ''PHAR 1.2.0''\<rparr>
      else if url = ''https://example.org/gone''
      then Reply \<lparr>statusCode = Some 404, location = None, body = ''Not Found''\<rparr>
      else if url = ''https://example.org/empty''
      then Reply \<lparr>statusCode = Some 204, location = None, body = []\<rparr>
      else Refused (Thrown ''ENOTFOUND''))"

definition offline_net :: "string \<Rightarrow> reply" where
  "offline_net url = Refused (Thrown ''ENOTFOUND'')"

definition ex_storage :: string where
  "ex_storage = ''/data''"

text \<open>
  A world with a binary installed and the given text in both metadata files, and a world
  with no file at all.
\<close>

definition ex_world :: "(string \<Rightarrow> reply) \<Rightarrow> string \<Rightarrow> world" where
  "ex_world nt meta =
     \<lparr>net = nt, disk = (\<lambda>p. Stream_ok), rename_rejects = None, chmod_rejects = None,
      clock = ''now'',
      files = [execPath ex_storage \<mapsto> \<lparr>content = ''PHAR 1.1.0'', mode = mode_755\<rparr>,
               metaPath ex_storage \<mapsto> \<lparr>content = meta, mode = default_mode\<rparr>,
               metaPath_single ex_storage \<mapsto> \<lparr>content = meta, mode = default_mode\<rparr>],
      requests = []\<rparr>"

definition ex_empty :: "(string \<Rightarrow> reply) \<Rightarrow> world" where
  "ex_empty nt =
     \<lparr>net = nt, disk = (\<lambda>p. Stream_ok), rename_rejects = None, chmod_rejects = None,
      clock = ''now'', files = Map.empty, requests = []\<rparr>"

definition w_stale :: world where
  "w_stale = ex_world ex_net ''{v1.1.0}''"

definition w_fresh :: world where
  "w_fresh = ex_world ex_net ''{v1.2.0}''"

definition w_offline :: world where
  "w_offline = ex_world offline_net ''{v1.1.0}''"

text \<open>
  An empty storage directory where \<open>chmod\<close> is refused, and one where the disk fills up
  after four bytes of the download.
\<close>

definition w_noexec :: world where
  "w_noexec = (ex_empty ex_net)\<lparr>chmod_rejects := Some (Thrown ''EPERM'')\<rparr>"

definition w_full :: world where
  "w_full = (ex_empty ex_net)\<lparr>disk := (\<lambda>p. Write_failed 4 (Thrown ''ENOSPC''))\<rparr>"

text \<open>The second of them after the install has failed.\<close>

definition w_full_after :: world where
  "w_full_after =
     written (execPath ex_storage @ ''.tmp'') ''PHAR''
       (asked download_headers [''https://example.org/phar'', ''https://cdn.example.org/phar'']
          (sent (releases_url SERVER_REPO) json_headers w_full))"



definition ex_extension :: extension where
  "ex_extension =
     \<lparr>sys = w_fresh, output_lines = [], errorMessages = [], informationMessages = [],
      client = Some \<lparr>command = ''/usr/local/bin/php-cs-fixer-lsp'',
                     args = [''server'', ''--verbose'']\<rparr>,
      restarting = False, events = []\<rparr>"


text \<open>A formatting request that fails in the server.\<close>

definition ex_next :: "string \<Rightarrow> nat \<Rightarrow> bool \<Rightarrow> js_error + string list option" where
  "ex_next document options token =
     Inl (Error_obj ''server crashed'' (Some ''Error: server crashed at format''))"


section \<open>Facts about the helpers\<close>

lemma sent_simps [simp]:
  "net (sent url hs w) = net w"
  "disk (sent url hs w) = disk w"
  "clock (sent url hs w) = clock w"
  "rename_rejects (sent url hs w) = rename_rejects w"
  "chmod_rejects (sent url hs w) = chmod_rejects w"
  "files (sent url hs w) = files w"
  "requests (sent url hs w) = requests w @ [\<lparr>req_url = url, req_headers = hs\<rparr>]"
  by (simp_all add: sent_def)

lemma written_simps [simp]:
  "net (written p b w) = net w"
  "disk (written p b w) = disk w"
  "clock (written p b w) = clock w"
  "rename_rejects (written p b w) = rename_rejects w"
  "chmod_rejects (written p b w) = chmod_rejects w"
  "requests (written p b w) = requests w"
  "files (written p b w) p =
     Some \<lparr>content = b, mode = (case files w p of None \<Rightarrow> default_mode | Some f \<Rightarrow> mode f)\<rparr>"
  "q \<noteq> p \<Longrightarrow> files (written p b w) q = files w q"
  by (simp_all add: written_def)

lemma asked_simps [simp]:
  "net (asked hs us w) = net w"
  "disk (asked hs us w) = disk w"
  "clock (asked hs us w) = clock w"
  "rename_rejects (asked hs us w) = rename_rejects w"
  "chmod_rejects (asked hs us w) = chmod_rejects w"
  "files (asked hs us w) = files w"
  by (simp_all add: asked_def)

lemma asked_Cons: "asked hs us (sent u hs w) = asked hs (u # us) w"
  by (simp add: asked_def sent_def)

lemma asked_one: "sent u hs w = asked hs [u] w"
  by (simp add: asked_def sent_def)

lemma headers_differ: "json_headers \<noteq> download_headers"
  by (simp add: json_headers_def download_headers_def)

lemma downloads_simps [simp]:
  "downloads (sent url json_headers w) = downloads w"
  "downloads (sent url download_headers w) = downloads w @ [url]"
  "downloads (written p b w) = downloads w"
  using headers_differ by (simp_all add: downloads_def)

lemma downloads_asked [simp]:
  "downloads (asked download_headers us w) = downloads w @ us"
  "downloads (asked json_headers us w) = downloads w"
  using headers_differ by (simp_all add: downloads_def asked_def filter_map comp_def)

lemma downloads_files_update [simp]: "downloads (w\<lparr>files := fs\<rparr>) = downloads w"
  by (simp add: downloads_def)

lemma not_redirect_target: "\<not> is_redirect res \<Longrightarrow> redirect_target res = None"
  by (auto simp: is_redirect_def redirect_target_def split: option.splits)

lemma pipe_ok: "disk w path = Stream_ok \<Longrightarrow> pipe_to_file path bytes w = Some (Inr (), written path bytes w)"
  by (simp add: pipe_to_file_def)

lemma fileExists_eq: "fileExists p w = Some (Inr (files w p \<noteq> None), w)"
  by (simp add: fileExists_def)

lemma readJson_eq: "readJson parse path w = Some (Inr (stored_json parse w path), w)"
  by (simp add: readJson_def stored_json_def split: option.splits sum.splits)

lemma readMeta_eq: "readMeta rt path w = Some (Inr (stored_json (parse_meta rt) w path), w)"
  by (simp add: readMeta_def stored_json_def split: option.splits sum.splits)

lemma same_tag_simps [simp]:
  "same_tag None t = False" "same_tag (Some m) t = (tag m = t)"
  by (simp_all add: same_tag_def)

lemma observe_Some [simp]: "observe p (Some (r, w)) = Some (r, downloads w, files w p)"
  by (simp add: observe_def)

lemma tmp_differs [simp]: "p @ ''.tmp'' \<noteq> p" "p \<noteq> p @ ''.tmp''"
  using arg_cong [of "p @ ''.tmp''" p length] by auto

lemma paths_differ [simp]:
  "metaPath storage \<noteq> execPath storage"
  "metaPath storage \<noteq> execPath storage @ ''.tmp''"
  "execPath storage \<noteq> metaPath storage"
  "execPath storage @ ''.tmp'' \<noteq> metaPath storage"
  by (simp_all add: metaPath_def execPath_def join_def)

lemma paths_single_differ [simp]:
  "metaPath_single storage \<noteq> binaryPath storage"
  "metaPath_single storage \<noteq> binaryPath storage @ ''.tmp''"
  "binaryPath storage \<noteq> metaPath_single storage"
  "binaryPath storage @ ''.tmp'' \<noteq> metaPath_single storage"
  by (simp_all add: metaPath_single_def binaryPath_def join_def META_FILENAME_def ASSET_NAME_def)

section \<open>Following a redirect chain\<close>

text \<open>
  Each of the four recursive helpers walks a chain hop by hop: induction on the list of
  addresses, with the starting address and the world generalised.
\<close>

lemma chain_hop:
  assumes "chain nt u (v # vs) payload"
  obtains res where "nt u = Reply res" "redirect_target res = Some v" "chain nt v vs payload"
  using assms by (auto simp: redirect_target_def split: reply.splits option.splits)

lemma chain_end:
  assumes "chain nt u [] payload"
  obtains res where "nt u = Reply res" "redirect_target res = None" "statusCode res = Some 200"
    "body res = payload"
  using assms by (auto simp: redirect_target_def split: reply.splits)

lemma fetchJson_chain:
  "chain (net w) u vs payload \<Longrightarrow> parse payload = Inr j \<Longrightarrow>
   fetchJson rt parse u w = Some (Inr j, asked json_headers (u # vs) w)"
proof (induction vs arbitrary: u w)
  case Nil
  from Nil.prems(1) obtain res where "net w u = Reply res" "redirect_target res = None"
    "statusCode res = Some 200" "body res = payload" by (rule chain_end)
  with Nil.prems(2) show ?case
    by (simp add: fetchJson.simps [of rt parse u w] asked_one)
next
  case (Cons v vs)
  from Cons.prems(1) obtain res where r: "net w u = Reply res" "redirect_target res = Some v"
    and c: "chain (net w) v vs payload" by (rule chain_hop)
  have "fetchJson rt parse u w = fetchJson rt parse v (sent u json_headers w)"
    by (simp add: fetchJson.simps [of rt parse u w] r)
  also have "\<dots> = Some (Inr j, asked json_headers (v # vs) (sent u json_headers w))"
    using Cons.IH [of "sent u json_headers w" v] c Cons.prems(2) by simp
  finally show ?case by (simp add: asked_Cons)
qed

lemma getJson_chain:
  "chain (net w) u vs payload \<Longrightarrow> parse payload = Inr j \<Longrightarrow>
   getJson rt parse u w = Some (Inr j, asked json_headers (u # vs) w)"
proof (induction vs arbitrary: u w)
  case Nil
  from Nil.prems(1) obtain res where "net w u = Reply res" "redirect_target res = None"
    "statusCode res = Some 200" "body res = payload" by (rule chain_end)
  with Nil.prems(2) show ?case
    by (simp add: getJson.simps [of rt parse u w] asked_one)
next
  case (Cons v vs)
  from Cons.prems(1) obtain res where r: "net w u = Reply res" "redirect_target res = Some v"
    and c: "chain (net w) v vs payload" by (rule chain_hop)
  have "getJson rt parse u w = getJson rt parse v (sent u json_headers w)"
    by (simp add: getJson.simps [of rt parse u w] r)
  also have "\<dots> = Some (Inr j, asked json_headers (v # vs) (sent u json_headers w))"
    using Cons.IH [of "sent u json_headers w" v] c Cons.prems(2) by simp
  finally show ?case by (simp add: asked_Cons)
qed

lemma download_chain_pipe:
  "chain (net w) u vs payload \<Longrightarrow>
   download rt u path w = pipe_to_file path payload (asked download_headers (u # vs) w)"
proof (induction vs arbitrary: u w)
  case Nil
  from Nil.prems(1) obtain res where "net w u = Reply res" "redirect_target res = None"
    "statusCode res = Some 200" "body res = payload" by (rule chain_end)
  then show ?case
    by (simp add: download.simps [of rt u path w] asked_one)
next
  case (Cons v vs)
  from Cons.prems(1) obtain res where r: "net w u = Reply res" "redirect_target res = Some v"
    and c: "chain (net w) v vs payload" by (rule chain_hop)
  have "download rt u path w = download rt v path (sent u download_headers w)"
    by (simp add: download.simps [of rt u path w] r)
  also have "\<dots> = pipe_to_file path payload
                      (asked download_headers (v # vs) (sent u download_headers w))"
    using Cons.IH [of "sent u download_headers w" v] c by simp
  finally show ?case by (simp add: asked_Cons)
qed

lemma download_chain:
  "chain (net w) u vs payload \<Longrightarrow> disk w path = Stream_ok \<Longrightarrow>
   download rt u path w = Some (Inr (), written path payload (asked download_headers (u # vs) w))"
  by (simp add: download_chain_pipe pipe_ok)

lemma downloadToFile_chain_pipe:
  "chain (net w) u vs payload \<Longrightarrow>
   downloadToFile rt u path w = pipe_to_file path payload (asked download_headers (u # vs) w)"
proof (induction vs arbitrary: u w)
  case Nil
  from Nil.prems(1) obtain res where "net w u = Reply res" "redirect_target res = None"
    "statusCode res = Some 200" "body res = payload" by (rule chain_end)
  then show ?case
    by (simp add: downloadToFile.simps [of rt u path w] asked_one)
next
  case (Cons v vs)
  from Cons.prems(1) obtain res where r: "net w u = Reply res" "redirect_target res = Some v"
    and c: "chain (net w) v vs payload" by (rule chain_hop)
  have "downloadToFile rt u path w = downloadToFile rt v path (sent u download_headers w)"
    by (simp add: downloadToFile.simps [of rt u path w] r)
  also have "\<dots> = pipe_to_file path payload
                      (asked download_headers (v # vs) (sent u download_headers w))"
    using Cons.IH [of "sent u download_headers w" v] c by simp
  finally show ?case by (simp add: asked_Cons)
qed

lemma downloadToFile_chain:
  "chain (net w) u vs payload \<Longrightarrow> disk w path = Stream_ok \<Longrightarrow>
   downloadToFile rt u path w
     = Some (Inr (), written path payload (asked download_headers (u # vs) w))"
  by (simp add: downloadToFile_chain_pipe pipe_ok)

section \<open>What a finished network call has changed\<close>

text \<open>
  The helpers may not return, so these facts are about a run that did: by the induction
  rule of the partial function, which follows its recursion.
\<close>

lemma quiet_refl [simp]: "quiet w w"
  by (simp add: quiet_def same_outside_def)

lemma quiet_sent: "quiet (sent url json_headers w) w' \<Longrightarrow> quiet w w'"
  by (simp add: quiet_def same_outside_def)

lemma quiet_sent_self [simp]: "quiet w (sent url json_headers w)"
  by (simp add: quiet_def same_outside_def)

lemma fetchJson_quiet:
  "fetchJson rt parse url w = Some y \<Longrightarrow> quiet w (snd y)"
proof (induction rt parse url w y rule: fetchJson.raw_induct [rotated 1, consumes 1, case_names step])
  case (step f rt parse url w y)
  from step.hyps show ?case
    by (auto split: reply.splits option.splits if_splits sum.splits dest!: step.IH quiet_sent)
qed

lemma getJson_quiet:
  "getJson rt parse url w = Some y \<Longrightarrow> quiet w (snd y)"
proof (induction rt parse url w y rule: getJson.raw_induct [rotated 1, consumes 1, case_names step])
  case (step f rt parse url w y)
  from step.hyps show ?case
    by (auto split: reply.splits option.splits if_splits sum.splits dest!: step.IH quiet_sent)
qed

lemma fetchLatestReleaseAsset_quiet:
  "fetchLatestReleaseAsset rt repo nm w = Some (r, w') \<Longrightarrow> quiet w w'"
  by (auto simp: fetchLatestReleaseAsset_def bind_io_def throw_io_def return_io_def
           split: option.splits sum.splits prod.splits dest!: fetchJson_quiet)

lemma fetchLatestRelease_quiet:
  "fetchLatestRelease rt w = Some (r, w') \<Longrightarrow> quiet w w'"
  by (auto simp: fetchLatestRelease_def bind_io_def throw_io_def return_io_def
           split: option.splits sum.splits prod.splits dest!: getJson_quiet)

lemma completeI:
  "net w u = Reply res \<Longrightarrow> statusCode res = Some 200 \<Longrightarrow> complete w (body res)"
  by (auto simp: complete_def)

lemma complete_cong: "net w' = net w \<Longrightarrow> complete w' = complete w"
  by (auto simp: complete_def fun_eq_iff)

lemma fresh_binary_cong:
  assumes "net w' = net w"
  shows "fresh_binary w' = fresh_binary w"
proof -
  from assms have "complete w' = complete w" by (rule complete_cong)
  then show ?thesis by (simp add: fresh_binary_def fun_eq_iff)
qed

lemma download_result:
  "download rt url path w = Some y \<Longrightarrow>
     touched_only path w (snd y) \<and>
     (\<exists>rest. downloads (snd y) = downloads w @ url # rest) \<and>
     (\<forall>u. fst y = Inr u \<longrightarrow> (\<exists>f. files (snd y) path = Some f \<and> complete w (content f)))"
proof (induction rt url path w y rule: download.raw_induct [rotated 1, consumes 1, case_names step])
  case (step f rt url path w y)
  show ?case
  proof (cases "net w url")
    case (Refused e)
    with step.hyps show ?thesis by (auto simp: touched_only_def same_outside_def)
  next
    case (Reply res)
    show ?thesis
    proof (cases "redirect_target res")
      case (Some l)
      with Reply step.hyps have "f rt l path (sent url download_headers w) = Some y" by simp
      from step.IH [OF this] show ?thesis
        by (auto simp: touched_only_def same_outside_def
              complete_cong [of "sent url download_headers w" w])
    next
      case None
      with Reply step.hyps show ?thesis
        by (auto simp: touched_only_def same_outside_def pipe_to_file_def
                 split: if_splits stream_outcome.splits intro: completeI)
    qed
  qed
qed

lemma downloadToFile_result:
  "downloadToFile rt url path w = Some y \<Longrightarrow>
     touched_only path w (snd y) \<and>
     (\<exists>rest. downloads (snd y) = downloads w @ url # rest) \<and>
     (\<forall>u. fst y = Inr u \<longrightarrow> (\<exists>f. files (snd y) path = Some f \<and> complete w (content f)))"
proof (induction rt url path w y rule: downloadToFile.raw_induct [rotated 1, consumes 1, case_names step])
  case (step f rt url path w y)
  show ?case
  proof (cases "net w url")
    case (Refused e)
    with step.hyps show ?thesis by (auto simp: touched_only_def same_outside_def)
  next
    case (Reply res)
    show ?thesis
    proof (cases "redirect_target res")
      case (Some l)
      with Reply step.hyps have "f rt l path (sent url download_headers w) = Some y" by simp
      from step.IH [OF this] show ?thesis
        by (auto simp: touched_only_def same_outside_def
              complete_cong [of "sent url download_headers w" w])
    next
      case None
      with Reply step.hyps show ?thesis
        by (auto simp: touched_only_def same_outside_def pipe_to_file_def
                 split: if_splits stream_outcome.splits intro: completeI)
    qed
  qed
qed

section \<open>Download, rename, mark executable, write the metadata\<close>

lemma pipe_to_file_result:
  assumes "pipe_to_file path bytes w = Some (r, w')"
  shows "same_outside w w' \<and> downloads w' = downloads w
       \<and> (\<forall>p. p \<noteq> path \<longrightarrow> files w' p = files w p)
       \<and> (r = Inr () \<longrightarrow> (\<exists>m. files w' path = Some \<lparr>content = bytes, mode = m\<rparr>))"
  using assms
  by (auto simp: pipe_to_file_def same_outside_def split: stream_outcome.splits)

lemma rename_result:
  assumes "files w src = Some f"
  shows "rename rt src dst w =
           (case rename_rejects w of
              Some e \<Rightarrow> Some (Inl e, w)
            | None \<Rightarrow> Some (Inr (), w\<lparr>files := (files w)(src := None, dst \<mapsto> f)\<rparr>))"
  using assms by (simp add: rename_def split: option.splits)

text \<open>The rename and the chmod after a download that left \<open>f\<close> at the temporary path.\<close>

lemma rename_chmod:
  assumes "files w (exec @ ''.tmp'') = Some f"
  shows "bind_io (rename rt (exec @ ''.tmp'') exec) (\<lambda>_. chmod rt exec mode_755) w
           = (case rename_rejects w of
                Some e \<Rightarrow> Some (Inl e, w)
              | None \<Rightarrow>
                  (case chmod_rejects w of
                     Some e \<Rightarrow>
                       Some (Inl e, w\<lparr>files := (files w)(exec @ ''.tmp'' := None, exec \<mapsto> f)\<rparr>)
                   | None \<Rightarrow>
                       Some (Inr (), w\<lparr>files := (files w)(exec @ ''.tmp'' := None,
                                                          exec \<mapsto> f\<lparr>mode := mode_755\<rparr>)\<rparr>)))"
  using assms
  by (simp add: bind_io_def rename_result [OF assms] chmod_def split: option.splits)

lemma install_steps:
  fixes d :: "unit io"
  assumes run: "bind_io (bind_io d (\<lambda>_. bind_io (rename rt (exec @ ''.tmp'') exec)
                                        (\<lambda>_. chmod rt exec mode_755)))
                  (\<lambda>_. bind_io (\<lambda>w. writeFile meta (render (clock w)) w) (\<lambda>_. return_io exec)) w
                = Some (r, w')"
    and d: "\<And>y. d w = Some y \<Longrightarrow> download_ok url (exec @ ''.tmp'') w y"
    and ne: "meta \<noteq> exec" "meta \<noteq> exec @ ''.tmp''"
  shows "same_outside w w'
       \<and> (\<exists>rest. downloads w' = downloads w @ url # rest)
       \<and> settled w r w' exec
       \<and> (\<forall>p. p \<noteq> exec \<and> p \<noteq> exec @ ''.tmp'' \<and> p \<noteq> meta \<longrightarrow> files w' p = files w p)
       \<and> (\<forall>p. r = Inr p \<longrightarrow>
             p = exec \<and> fresh_binary w (files w' exec) \<and> files w' (exec @ ''.tmp'') = None
             \<and> (\<exists>m. files w' meta = Some \<lparr>content = render (clock w), mode = m\<rparr>))"
proof -
  from run obtain y where y: "d w = Some y"
    by (cases "d w") (auto simp: bind_io_def)
  obtain res w1 where yy: "y = (res, w1)" by (cases y)
  from d [OF y] yy have t: "touched_only (exec @ ''.tmp'') w w1"
    and dl: "\<exists>rest. downloads w1 = downloads w @ url # rest"
    and ok: "\<And>u. res = Inr u \<Longrightarrow> \<exists>f. files w1 (exec @ ''.tmp'') = Some f \<and> complete w (content f)"
    by (auto simp: download_ok_def)
  from t have so: "same_outside w w1"
    and other: "\<And>p. p \<noteq> exec @ ''.tmp'' \<Longrightarrow> files w1 p = files w p"
    by (auto simp: touched_only_def)
  from so have rj: "rename_rejects w1 = rename_rejects w" "chmod_rejects w1 = chmod_rejects w"
    "clock w1 = clock w"
    by (simp_all add: same_outside_def)
  show ?thesis
  proof (cases res)
    case (Inl e)
    with run y yy have "r = Inl e" "w' = w1" by (auto simp: bind_io_def)
    with so dl other [of exec] other show ?thesis by (simp add: settled_def)
  next
    case (Inr u)
    from ok [OF Inr] obtain f where f: "files w1 (exec @ ''.tmp'') = Some f" "complete w (content f)"
      by blast
    let ?moved = "w1\<lparr>files := (files w1)(exec @ ''.tmp'' := None, exec \<mapsto> f)\<rparr>"
    let ?marked = "w1\<lparr>files := (files w1)(exec @ ''.tmp'' := None, exec \<mapsto> f\<lparr>mode := mode_755\<rparr>)\<rparr>"
    have steps: "bind_io d (\<lambda>_. bind_io (rename rt (exec @ ''.tmp'') exec)
                                 (\<lambda>_. chmod rt exec mode_755)) w
            = (case rename_rejects w of
                Some e \<Rightarrow> Some (Inl e, w1)
              | None \<Rightarrow>
                  (case chmod_rejects w of
                     Some e \<Rightarrow> Some (Inl e, ?moved)
                   | None \<Rightarrow> Some (Inr (), ?marked)))"
      using y yy Inr rename_chmod [OF f(1), of rt]
      by (cases "rename_rejects w"; cases "chmod_rejects w") (simp_all add: bind_io_def rj)
    show ?thesis
    proof (cases "rename_rejects w")
      case (Some e)
      with run steps have "r = Inl e" "w' = w1" by (auto simp: bind_io_def)
      with so dl other [of exec] other show ?thesis by (simp add: settled_def)
    next
      case None
      show ?thesis
      proof (cases "chmod_rejects w")
        case (Some e)
        with run steps None have r: "r = Inl e" and w': "w' = ?moved" by (auto simp: bind_io_def)
        have "settled w r w' exec"
          unfolding settled_def
        proof (rule disjI2, intro exI conjI)
          show "files w' exec = Some f" by (simp add: w')
          show "complete w (content f)" by (rule f(2))
          show "files w' (exec @ ''.tmp'') = None" by (simp add: w')
          show "mode f = mode_755 \<or> (\<exists>e. chmod_rejects w = Some e \<and> r = Inl e)"
            using Some r by simp
        qed
        moreover have "same_outside w w'" using so by (simp add: w' same_outside_def)
        moreover have "\<exists>rest. downloads w' = downloads w @ url # rest" using dl by (simp add: w')
        moreover have "\<forall>p. p \<noteq> exec \<and> p \<noteq> exec @ ''.tmp'' \<and> p \<noteq> meta \<longrightarrow> files w' p = files w p"
          using other by (simp add: w')
        ultimately show ?thesis using r by simp
      next
        case N2: None
        from run steps None N2
        have wf: "pipe_to_file meta (render (clock w)) ?marked
                    = Some (case r of Inl e \<Rightarrow> Inl e | Inr _ \<Rightarrow> Inr (), w')"
          and rr: "\<forall>p. r = Inr p \<longrightarrow> p = exec"
          by (auto simp: bind_io_def writeFile_def return_io_def rj
                   split: option.splits sum.splits prod.splits)
        from pipe_to_file_result [OF wf]
        have so2: "same_outside ?marked w'" and dl2: "downloads w' = downloads ?marked"
          and oth2: "\<And>p. p \<noteq> meta \<Longrightarrow> files w' p = files ?marked p"
          and m2: "\<And>p. r = Inr p \<Longrightarrow> \<exists>m. files w' meta = Some \<lparr>content = render (clock w), mode = m\<rparr>"
          by (auto split: sum.splits)
        have fe: "files w' exec = Some (f\<lparr>mode := mode_755\<rparr>)"
          using ne oth2 [of exec] by simp
        have ft: "files w' (exec @ ''.tmp'') = None"
          using ne oth2 [of "exec @ ''.tmp''"] by simp
        have "settled w r w' exec"
          unfolding settled_def
        proof (rule disjI2, intro exI conjI)
          show "files w' exec = Some (f\<lparr>mode := mode_755\<rparr>)" by (rule fe)
          show "complete w (content (f\<lparr>mode := mode_755\<rparr>))" using f(2) by simp
          show "files w' (exec @ ''.tmp'') = None" by (rule ft)
          show "mode (f\<lparr>mode := mode_755\<rparr>) = mode_755
                  \<or> (\<exists>e. chmod_rejects w = Some e \<and> r = Inl e)" by simp
        qed
        moreover have "fresh_binary w (files w' exec)"
          unfolding fresh_binary_def
        proof (intro exI conjI)
          show "complete w (content f)" by (rule f(2))
          show "files w' exec = Some \<lparr>content = content f, mode = mode_755\<rparr>"
            by (simp add: fe)
        qed
        moreover have "same_outside w w'" using so so2 by (simp add: same_outside_def)
        moreover have "\<exists>rest. downloads w' = downloads w @ url # rest"
          using dl dl2 by simp
        moreover have "\<forall>p. p \<noteq> exec \<and> p \<noteq> exec @ ''.tmp'' \<and> p \<noteq> meta \<longrightarrow> files w' p = files w p"
          using other oth2 by simp
        ultimately show ?thesis using rr ft m2 by blast
      qed
    qed
  qed
qed

lemma steps_after_download:
  fixes d :: "unit io"
  assumes d: "d w = Some (Inr (), written (exec @ ''.tmp'') payload w1)"
    and ok: "rename_rejects w1 = None" "chmod_rejects w1 = None" "disk w1 meta = Stream_ok"
    and ne: "meta \<noteq> exec" "meta \<noteq> exec @ ''.tmp''"
  shows "\<exists>w'. bind_io (bind_io d (\<lambda>_. bind_io (rename rt (exec @ ''.tmp'') exec)
                                        (\<lambda>_. chmod rt exec mode_755)))
                  (\<lambda>_. bind_io (\<lambda>w. writeFile meta (render (clock w)) w) (\<lambda>_. return_io exec)) w
                = Some (Inr exec, w')
            \<and> files w' exec = Some \<lparr>content = payload, mode = mode_755\<rparr>
            \<and> files w' (exec @ ''.tmp'') = None
            \<and> (\<exists>m. files w' meta = Some \<lparr>content = render (clock w1), mode = m\<rparr>)
            \<and> downloads w' = downloads w1
            \<and> (\<forall>p. p \<noteq> exec \<and> p \<noteq> exec @ ''.tmp'' \<and> p \<noteq> meta \<longrightarrow> files w' p = files w1 p)"
proof -
  let ?w2 = "written (exec @ ''.tmp'') payload w1"
  let ?f = "\<lparr>content = payload,
             mode = (case files w1 (exec @ ''.tmp'') of None \<Rightarrow> default_mode | Some f \<Rightarrow> mode f)\<rparr>"
  let ?w3 = "?w2\<lparr>files := (files ?w2)(exec @ ''.tmp'' := None, exec \<mapsto> ?f\<lparr>mode := mode_755\<rparr>)\<rparr>"
  have f: "files ?w2 (exec @ ''.tmp'') = Some ?f" by simp
  have "bind_io d (\<lambda>_. bind_io (rename rt (exec @ ''.tmp'') exec) (\<lambda>_. chmod rt exec mode_755)) w
          = Some (Inr (), ?w3)"
    using d rename_chmod [OF f, of rt] ok by (simp add: bind_io_def)
  then have run: "bind_io (bind_io d (\<lambda>_. bind_io (rename rt (exec @ ''.tmp'') exec)
                                        (\<lambda>_. chmod rt exec mode_755)))
                  (\<lambda>_. bind_io (\<lambda>w. writeFile meta (render (clock w)) w) (\<lambda>_. return_io exec)) w
                = Some (Inr exec, written meta (render (clock ?w3)) ?w3)"
    using ok by (simp add: bind_io_def writeFile_def pipe_to_file_def return_io_def)
  show ?thesis
    apply (rule exI [of _ "written meta (render (clock ?w3)) ?w3"])
    using ne by (simp add: run)
qed

lemma refresh_result:
  assumes "refresh rt latest exec meta w = Some (r, w')" "meta \<noteq> exec" "meta \<noteq> exec @ ''.tmp''"
  shows "same_outside w w'
       \<and> (\<exists>rest. downloads w' = downloads w @ asset_url latest # rest)
       \<and> settled w r w' exec
       \<and> (\<forall>p. p \<noteq> exec \<and> p \<noteq> exec @ ''.tmp'' \<and> p \<noteq> meta \<longrightarrow> files w' p = files w p)
       \<and> (\<forall>p. r = Inr p \<longrightarrow>
             p = exec \<and> fresh_binary w (files w' exec) \<and> files w' (exec @ ''.tmp'') = None
             \<and> (\<exists>m. files w' meta
                    = Some \<lparr>content = stringify_meta rt
                                        \<lparr>tag = asset_tag latest, downloadedAt = clock w\<rparr>,
                            mode = m\<rparr>))"
proof (rule install_steps [where d = "download rt (asset_url latest) (exec @ ''.tmp'')"
      and render = "\<lambda>c. stringify_meta rt \<lparr>tag = asset_tag latest, downloadedAt = c\<rparr>" and rt = rt])
  show "bind_io (bind_io (download rt (asset_url latest) (exec @ ''.tmp''))
          (\<lambda>_. bind_io (rename rt (exec @ ''.tmp'') exec) (\<lambda>_. chmod rt exec mode_755)))
          (\<lambda>_. bind_io (\<lambda>w. writeFile meta
                   (stringify_meta rt \<lparr>tag = asset_tag latest, downloadedAt = clock w\<rparr>) w)
                 (\<lambda>_. return_io exec)) w = Some (r, w')"
    using assms(1) by (simp add: refresh_def Let_def)
  show "\<And>y. download rt (asset_url latest) (exec @ ''.tmp'') w = Some y \<Longrightarrow>
          download_ok (asset_url latest) (exec @ ''.tmp'') w y"
    unfolding download_ok_def by (rule download_result)
qed (rule assms)+

lemma refresh_single_result:
  assumes "refresh_single rt latest exec meta w = Some (r, w')" "meta \<noteq> exec"
    "meta \<noteq> exec @ ''.tmp''"
  shows "same_outside w w'
       \<and> (\<exists>rest. downloads w' = downloads w @ downloadUrl latest # rest)
       \<and> settled w r w' exec
       \<and> (\<forall>p. p \<noteq> exec \<and> p \<noteq> exec @ ''.tmp'' \<and> p \<noteq> meta \<longrightarrow> files w' p = files w p)
       \<and> (\<forall>p. r = Inr p \<longrightarrow>
             p = exec \<and> fresh_binary w (files w' exec) \<and> files w' (exec @ ''.tmp'') = None
             \<and> (\<exists>m. files w' meta
                    = Some \<lparr>content = stringify_meta rt
                                        \<lparr>tag = latest_tag latest, downloadedAt = clock w\<rparr>,
                            mode = m\<rparr>))"
proof (rule install_steps [where d = "downloadToFile rt (downloadUrl latest) (exec @ ''.tmp'')"
      and render = "\<lambda>c. stringify_meta rt \<lparr>tag = latest_tag latest, downloadedAt = c\<rparr>" and rt = rt])
  show "bind_io (bind_io (downloadToFile rt (downloadUrl latest) (exec @ ''.tmp''))
          (\<lambda>_. bind_io (rename rt (exec @ ''.tmp'') exec) (\<lambda>_. chmod rt exec mode_755)))
          (\<lambda>_. bind_io (\<lambda>w. writeFile meta
                   (stringify_meta rt \<lparr>tag = latest_tag latest, downloadedAt = clock w\<rparr>) w)
                 (\<lambda>_. return_io exec)) w = Some (r, w')"
    using assms(1) by (simp add: refresh_single_def downloadBinary_def Let_def)
  show "\<And>y. downloadToFile rt (downloadUrl latest) (exec @ ''.tmp'') w = Some y \<Longrightarrow>
          download_ok (downloadUrl latest) (exec @ ''.tmp'') w y"
    unfolding download_ok_def by (rule downloadToFile_result)
qed (rule assms)+

lemma refresh_chain:
  assumes "chain (net w) (asset_url latest) vs payload" "steps_succeed w exec meta"
    "meta \<noteq> exec" "meta \<noteq> exec @ ''.tmp''"
  shows "\<exists>w'. refresh rt latest exec meta w = Some (Inr exec, w')
            \<and> files w' exec = Some \<lparr>content = payload, mode = mode_755\<rparr>
            \<and> files w' (exec @ ''.tmp'') = None
            \<and> (\<exists>m. files w' meta
                   = Some \<lparr>content = stringify_meta rt
                                       \<lparr>tag = asset_tag latest, downloadedAt = clock w\<rparr>,
                           mode = m\<rparr>)
            \<and> downloads w' = downloads w @ asset_url latest # vs
            \<and> (\<forall>p. p \<noteq> exec \<and> p \<noteq> exec @ ''.tmp'' \<and> p \<noteq> meta \<longrightarrow> files w' p = files w p)"
proof -
  from assms(2) have ok: "disk w (exec @ ''.tmp'') = Stream_ok" "rename_rejects w = None"
    "chmod_rejects w = None" "disk w meta = Stream_ok"
    by (simp_all add: steps_succeed_def)
  from ok have ok': "rename_rejects (asked download_headers (asset_url latest # vs) w) = None"
    "chmod_rejects (asked download_headers (asset_url latest # vs) w) = None"
    "disk (asked download_headers (asset_url latest # vs) w) meta = Stream_ok"
    by simp_all
  from steps_after_download [where d = "download rt (asset_url latest) (exec @ ''.tmp'')"
      and w = w and rt = rt
      and render = "\<lambda>c. stringify_meta rt \<lparr>tag = asset_tag latest, downloadedAt = c\<rparr>",
      OF download_chain [OF assms(1) ok(1)] ok' assms(3,4)]
  show ?thesis by (simp add: refresh_def Let_def)
qed

lemma refresh_single_chain:
  assumes "chain (net w) (downloadUrl latest) vs payload" "steps_succeed w exec meta"
    "meta \<noteq> exec" "meta \<noteq> exec @ ''.tmp''"
  shows "\<exists>w'. refresh_single rt latest exec meta w = Some (Inr exec, w')
            \<and> files w' exec = Some \<lparr>content = payload, mode = mode_755\<rparr>
            \<and> files w' (exec @ ''.tmp'') = None
            \<and> (\<exists>m. files w' meta
                   = Some \<lparr>content = stringify_meta rt
                                       \<lparr>tag = latest_tag latest, downloadedAt = clock w\<rparr>,
                           mode = m\<rparr>)
            \<and> downloads w' = downloads w @ downloadUrl latest # vs
            \<and> (\<forall>p. p \<noteq> exec \<and> p \<noteq> exec @ ''.tmp'' \<and> p \<noteq> meta \<longrightarrow> files w' p = files w p)"
proof -
  from assms(2) have ok: "disk w (exec @ ''.tmp'') = Stream_ok" "rename_rejects w = None"
    "chmod_rejects w = None" "disk w meta = Stream_ok"
    by (simp_all add: steps_succeed_def)
  from ok have ok': "rename_rejects (asked download_headers (downloadUrl latest # vs) w) = None"
    "chmod_rejects (asked download_headers (downloadUrl latest # vs) w) = None"
    "disk (asked download_headers (downloadUrl latest # vs) w) meta = Stream_ok"
    by simp_all
  from steps_after_download [where d = "downloadToFile rt (downloadUrl latest) (exec @ ''.tmp'')"
      and w = w and rt = rt
      and render = "\<lambda>c. stringify_meta rt \<lparr>tag = latest_tag latest, downloadedAt = c\<rparr>",
      OF downloadToFile_chain [OF assms(1) ok(1)] ok' assms(3,4)]
  show ?thesis by (simp add: refresh_single_def downloadBinary_def Let_def)
qed

section \<open>The two installers, case by case\<close>

lemma downloadServerExec_cases:
  "downloadServerExec rt storage update w =
     (if \<not> update \<and> files w (execPath storage) \<noteq> None then Some (Inr (execPath storage), w)
      else (case fetchLatestReleaseAsset rt SERVER_REPO SERVER_ASSET w of
              None \<Rightarrow> None
            | Some (Inl e, w1) \<Rightarrow> Some (Inl e, w1)
            | Some (Inr latest, w1) \<Rightarrow>
                if same_tag (stored_json (parse_meta rt) w (metaPath storage)) (asset_tag latest)
                   \<and> files w1 (execPath storage) \<noteq> None
                then Some (Inr (execPath storage), w1)
                else refresh rt latest (execPath storage) (metaPath storage) w1))"
  by (simp add: downloadServerExec_def bind_io_def mkdir_def and_then_def fileExists_eq
        readJson_eq return_io_def split: option.splits sum.splits prod.splits)

lemma ensureDownloadedBinary_cases:
  "ensureDownloadedBinary rt storage force w =
     (case fetchLatestRelease rt w of
        None \<Rightarrow> None
      | Some (Inl e, w1) \<Rightarrow>
          if files w1 (binaryPath storage) \<noteq> None then Some (Inr (binaryPath storage), w1)
          else Some (Inl e, w1)
      | Some (Inr latest, w1) \<Rightarrow>
          if \<not> force
             \<and> same_tag (stored_json (parse_meta rt) w (metaPath_single storage)) (latest_tag latest)
             \<and> files w1 (binaryPath storage) \<noteq> None
          then Some (Inr (binaryPath storage), w1)
          else refresh_single rt latest (binaryPath storage) (metaPath_single storage) w1)"
  by (simp add: ensureDownloadedBinary_def bind_io_def catch_io_def mkdir_def and_then_def
        fileExists_eq readMeta_eq return_io_def throw_io_def
        split: option.splits sum.splits prod.splits)

lemma downloadServerExec_run:
  assumes "downloadServerExec rt storage update w = Some (r, w')"
  shows "w' = w
       \<or> (\<exists>res. fetchLatestReleaseAsset rt SERVER_REPO SERVER_ASSET w = Some (res, w'))
       \<or> (\<exists>latest w1. fetchLatestReleaseAsset rt SERVER_REPO SERVER_ASSET w = Some (Inr latest, w1)
             \<and> refresh rt latest (execPath storage) (metaPath storage) w1 = Some (r, w'))"
  using assms
  by (auto simp: downloadServerExec_def bind_io_def mkdir_def and_then_def fileExists_eq
        readJson_eq return_io_def split: option.splits sum.splits prod.splits if_splits)

lemma ensureDownloadedBinary_run:
  assumes "ensureDownloadedBinary rt storage force w = Some (r, w')"
  shows "(\<exists>res. fetchLatestRelease rt w = Some (res, w'))
       \<or> (\<exists>latest w1. fetchLatestRelease rt w = Some (Inr latest, w1)
             \<and> refresh_single rt latest (binaryPath storage) (metaPath_single storage) w1
                 = Some (r, w'))"
  using assms unfolding ensureDownloadedBinary_cases
  by (auto split: option.splits sum.splits prod.splits if_splits)

lemma settled_after_quiet:
  assumes "quiet w w1" "settled w1 r w' p"
  shows "settled w r w' p"
proof -
  from assms(1) have n: "net w1 = net w" and c: "chmod_rejects w1 = chmod_rejects w"
    and f: "files w1 = files w"
    by (simp_all add: quiet_def same_outside_def)
  from n have "complete w1 = complete w" by (rule complete_cong)
  with assms(2) show ?thesis by (simp add: settled_def f c)
qed

lemma settled_unchanged: "files w' p = files w p \<Longrightarrow> settled w r w' p"
  by (simp add: settled_def)

lemma steps_succeed_sent [simp]: "steps_succeed (sent u hs w) e m = steps_succeed w e m"
  by (simp add: steps_succeed_def)

lemma steps_succeed_quiet: "quiet w w1 \<Longrightarrow> steps_succeed w1 e m = steps_succeed w e m"
  by (simp add: steps_succeed_def quiet_def same_outside_def)

lemma installed_kept:
  assumes "same_outside w w'" "settled w r w' p" "chmod_rejects w = None \<or> (\<exists>q. r = Inr q)"
    "installed w p"
  shows "installed w' p"
proof -
  from assms(1) have "net w' = net w" by (simp add: same_outside_def)
  then have "fresh_binary w' = fresh_binary w" by (rule fresh_binary_cong)
  then have fb: "fresh_binary w' x = fresh_binary w x" for x
    by (rule fun_cong)
  from assms(2) have "files w' p = files w p
      \<or> (\<exists>f. files w' p = Some f \<and> complete w (content f) \<and> mode f = mode_755)"
    using assms(3) by (auto simp: settled_def)
  then show ?thesis
  proof
    assume same: "files w' p = files w p"
    from assms(4) have "files w p = None \<or> fresh_binary w (files w p)"
      by (simp only: installed_def)
    then have "files w' p = None \<or> fresh_binary w' (files w' p)"
      by (simp only: same fb)
    then show ?thesis by (simp only: installed_def)
  next
    assume "\<exists>f. files w' p = Some f \<and> complete w (content f) \<and> mode f = mode_755"
    then obtain f where f: "files w' p = Some f" "complete w (content f)" "mode f = mode_755"
      by blast
    have "fresh_binary w (files w' p)"
      unfolding fresh_binary_def
    proof (intro exI conjI)
      show "complete w (content f)" by (rule f(2))
      show "files w' p = Some \<lparr>content = content f, mode = mode_755\<rparr>"
        using f(1,3) by (cases f) simp
    qed
    then have "fresh_binary w' (files w' p)" by (simp only: fb)
    then show ?thesis by (simp only: installed_def simp_thms)
  qed
qed

lemma downloadServerExec_final:
  assumes run: "downloadServerExec rt storage update w = Some (r, w')"
  shows "same_outside w w' \<and> settled w r w' (execPath storage)
       \<and> (\<forall>p. p \<noteq> execPath storage \<and> p \<noteq> execPath storage @ ''.tmp'' \<and> p \<noteq> metaPath storage
              \<longrightarrow> files w' p = files w p)"
  using downloadServerExec_run [OF run]
proof (elim disjE exE conjE)
  assume "w' = w"
  then show ?thesis by (simp add: same_outside_def settled_unchanged)
next
  fix res assume "fetchLatestReleaseAsset rt SERVER_REPO SERVER_ASSET w = Some (res, w')"
  from fetchLatestReleaseAsset_quiet [OF this] show ?thesis
    by (simp add: quiet_def settled_unchanged)
next
  fix latest w1
  assume f: "fetchLatestReleaseAsset rt SERVER_REPO SERVER_ASSET w = Some (Inr latest, w1)"
    and g: "refresh rt latest (execPath storage) (metaPath storage) w1 = Some (r, w')"
  from fetchLatestReleaseAsset_quiet [OF f] have qq: "quiet w w1" .
  then have q: "same_outside w w1" "files w1 = files w"
    by (simp_all add: quiet_def)
  from refresh_result [OF g] have "same_outside w1 w'"
    and st: "settled w1 r w' (execPath storage)"
    and "\<forall>p. p \<noteq> execPath storage \<and> p \<noteq> execPath storage @ ''.tmp'' \<and> p \<noteq> metaPath storage
              \<longrightarrow> files w' p = files w1 p"
    by simp_all
  with q settled_after_quiet [OF qq st] show ?thesis by (simp add: same_outside_def)
qed

lemma ensureDownloadedBinary_final:
  assumes run: "ensureDownloadedBinary rt storage force w = Some (r, w')"
  shows "same_outside w w' \<and> settled w r w' (binaryPath storage)
       \<and> (\<forall>p. p \<noteq> binaryPath storage \<and> p \<noteq> binaryPath storage @ ''.tmp''
                \<and> p \<noteq> metaPath_single storage
              \<longrightarrow> files w' p = files w p)"
  using ensureDownloadedBinary_run [OF run]
proof (elim disjE exE conjE)
  fix res assume "fetchLatestRelease rt w = Some (res, w')"
  from fetchLatestRelease_quiet [OF this] show ?thesis
    by (simp add: quiet_def settled_unchanged)
next
  fix latest w1
  assume f: "fetchLatestRelease rt w = Some (Inr latest, w1)"
    and g: "refresh_single rt latest (binaryPath storage) (metaPath_single storage) w1
              = Some (r, w')"
  from fetchLatestRelease_quiet [OF f] have qq: "quiet w w1" .
  then have q: "same_outside w w1" "files w1 = files w"
    by (simp_all add: quiet_def)
  from refresh_single_result [OF g] have "same_outside w1 w'"
    and st: "settled w1 r w' (binaryPath storage)"
    and "\<forall>p. p \<noteq> binaryPath storage \<and> p \<noteq> binaryPath storage @ ''.tmp''
                \<and> p \<noteq> metaPath_single storage
              \<longrightarrow> files w' p = files w1 p"
    by simp_all
  with q settled_after_quiet [OF qq st] show ?thesis by (simp add: same_outside_def)
qed

text \<open>A refresh that is due and whose steps all succeed.\<close>

lemma downloadServerExec_installs:
  assumes a: "fetchLatestReleaseAsset rt SERVER_REPO SERVER_ASSET w = Some (Inr asset, w2)"
    and due: "files w (execPath storage) = None
              \<or> update \<and> \<not> same_tag (stored_json (parse_meta rt) w (metaPath storage))
                                      (asset_tag asset)"
    and c: "chain (net w) (asset_url asset) us bytes"
    and ok: "steps_succeed w (execPath storage) (metaPath storage)"
  shows "\<exists>w'. downloadServerExec rt storage update w = Some (Inr (execPath storage), w')
            \<and> files w' (execPath storage) = Some \<lparr>content = bytes, mode = mode_755\<rparr>
            \<and> files w' (execPath storage @ ''.tmp'') = None
            \<and> (\<exists>m. files w' (metaPath storage)
                   = Some \<lparr>content = stringify_meta rt
                                       \<lparr>tag = asset_tag asset, downloadedAt = clock w\<rparr>,
                           mode = m\<rparr>)
            \<and> downloads w' = downloads w @ asset_url asset # us"
proof -
  from a have q: "quiet w w2" by (rule fetchLatestReleaseAsset_quiet)
  from a due q have run: "downloadServerExec rt storage update w
        = refresh rt asset (execPath storage) (metaPath storage) w2"
    by (auto simp: downloadServerExec_cases quiet_def)
  from c q have c2: "chain (net w2) (asset_url asset) us bytes"
    by (simp add: quiet_def same_outside_def)
  from ok have ok2: "steps_succeed w2 (execPath storage) (metaPath storage)"
    by (simp only: steps_succeed_quiet [OF q])
  from refresh_chain [OF c2 ok2, of rt] q
  show ?thesis
    by (auto simp: run quiet_def same_outside_def)
qed

lemma ensureDownloadedBinary_installs:
  assumes a: "fetchLatestRelease rt w = Some (Inr latest, w1)"
    and due: "force \<or> files w (binaryPath storage) = None
              \<or> \<not> same_tag (stored_json (parse_meta rt) w (metaPath_single storage))
                           (latest_tag latest)"
    and c: "chain (net w) (downloadUrl latest) vs payload"
    and ok: "steps_succeed w (binaryPath storage) (metaPath_single storage)"
  shows "\<exists>w'. ensureDownloadedBinary rt storage force w = Some (Inr (binaryPath storage), w')
            \<and> files w' (binaryPath storage) = Some \<lparr>content = payload, mode = mode_755\<rparr>
            \<and> files w' (binaryPath storage @ ''.tmp'') = None
            \<and> (\<exists>m. files w' (metaPath_single storage)
                   = Some \<lparr>content = stringify_meta rt
                                       \<lparr>tag = latest_tag latest, downloadedAt = clock w\<rparr>,
                           mode = m\<rparr>)
            \<and> downloads w' = downloads w @ downloadUrl latest # vs"
proof -
  from a have q: "quiet w w1" by (rule fetchLatestRelease_quiet)
  from a due q have run: "ensureDownloadedBinary rt storage force w
        = refresh_single rt latest (binaryPath storage) (metaPath_single storage) w1"
    by (auto simp: ensureDownloadedBinary_cases quiet_def)
  from c q have c2: "chain (net w1) (downloadUrl latest) vs payload"
    by (simp add: quiet_def same_outside_def)
  from ok have ok2: "steps_succeed w1 (binaryPath storage) (metaPath_single storage)"
    by (simp only: steps_succeed_quiet [OF q])
  from refresh_single_chain [OF c2 ok2, of rt] q
  show ?thesis
    by (auto simp: run quiet_def same_outside_def)
qed

section \<open>The lifecycle, step by step\<close>




section \<open>The example worlds\<close>

lemma ex_paths:
  "execPath ex_storage = ''/data/server/php-cs-fixer-lsp.phar''"
  "binaryPath ex_storage = ''/data/server/php-cs-fixer-lsp.phar''"
  "metaPath ex_storage = ''/data/server/php-cs-fixer-lsp.phar.json''"
  "metaPath_single ex_storage = ''/data/server/meta.json''"
  by (simp_all add: execPath_def binaryPath_def metaPath_def metaPath_single_def storageDir_def
        join_def ex_storage_def SERVER_ASSET_def ASSET_NAME_def META_FILENAME_def)

lemma ex_urls:
  "releases_url SERVER_REPO = ''https://api.github.com/repos/balthild/php-cs-fixer-lsp/releases/latest''"
  "latest_release_url = ''https://api.github.com/repos/balthild/php-cs-fixer-lsp/releases/latest''"
  by (simp_all add: releases_url_def latest_release_url_def SERVER_REPO_def GH_OWNER_def GH_REPO_def)

lemma ex_net_simps:
  "ex_net (releases_url SERVER_REPO)
     = Reply \<lparr>statusCode = Some 200, location = None, body = ''{release v1.2.0}''\<rparr>"
  "ex_net latest_release_url
     = Reply \<lparr>statusCode = Some 200, location = None, body = ''{release v1.2.0}''\<rparr>"
  "ex_net ''https://example.org/phar''
     = Reply \<lparr>statusCode = Some 302, location = Some ''https://cdn.example.org/phar'', body = []\<rparr>"
  "ex_net ''https://cdn.example.org/phar''
     = Reply \<lparr>statusCode = Some 200, location = None, body = ''PHAR 1.2.0''\<rparr>"
  "ex_net ''https://example.org/gone''
     = Reply \<lparr>statusCode = Some 404, location = None, body = ''Not Found''\<rparr>"
  "ex_net ''https://example.org/empty''
     = Reply \<lparr>statusCode = Some 204, location = None, body = []\<rparr>"
  by (simp_all add: ex_net_def ex_urls)

lemma ex_chain:
  "chain ex_net ''https://example.org/phar'' [''https://cdn.example.org/phar''] ''PHAR 1.2.0''"
  by (simp add: ex_net_simps)

lemma ex_empty_simps [simp]:
  "net (ex_empty nt) = nt" "disk (ex_empty nt) p = Stream_ok" "clock (ex_empty nt) = ''now''"
  "rename_rejects (ex_empty nt) = None" "chmod_rejects (ex_empty nt) = None"
  "files (ex_empty nt) = Map.empty" "requests (ex_empty nt) = []"
  "steps_succeed (ex_empty nt) e m"
  by (simp_all add: ex_empty_def steps_succeed_def)

lemma ex_world_simps [simp]:
  "net (ex_world nt m) = nt" "disk (ex_world nt m) p = Stream_ok" "clock (ex_world nt m) = ''now''"
  "rename_rejects (ex_world nt m) = None" "chmod_rejects (ex_world nt m) = None"
  "requests (ex_world nt m) = []"
  "files (ex_world nt m) (execPath ex_storage) = Some \<lparr>content = ''PHAR 1.1.0'', mode = mode_755\<rparr>"
  "files (ex_world nt m) (binaryPath ex_storage) = Some \<lparr>content = ''PHAR 1.1.0'', mode = mode_755\<rparr>"
  "files (ex_world nt m) (metaPath ex_storage) = Some \<lparr>content = m, mode = default_mode\<rparr>"
  "files (ex_world nt m) (metaPath_single ex_storage) = Some \<lparr>content = m, mode = default_mode\<rparr>"
  "steps_succeed (ex_world nt m) e p"
  by (simp_all add: ex_world_def ex_paths steps_succeed_def)

lemma downloads_ex [simp]: "downloads (ex_world nt m) = []" "downloads (ex_empty nt) = []"
  by (simp_all add: downloads_def)

lemma ex_empty_facts:
  "net (ex_empty ex_net) = ex_net" "disk (ex_empty ex_net) = (\<lambda>p. Stream_ok)"
  "files (ex_empty ex_net) p = None" "downloads (ex_empty ex_net) = []"
  "stored_json parse (ex_empty ex_net) p = None"
  by (simp_all add: stored_json_def ex_empty_def downloads_def)

lemma ex_cached:
  "stored_json (parse_meta ex_rt) (ex_world nt ''{v1.1.0}'') (metaPath ex_storage)
     = Some \<lparr>tag = ''v1.1.0'', downloadedAt = ''before''\<rparr>"
  "stored_json (parse_meta ex_rt) (ex_world nt ''{v1.2.0}'') (metaPath ex_storage)
     = Some \<lparr>tag = ''v1.2.0'', downloadedAt = ''before''\<rparr>"
  "stored_json (parse_meta ex_rt) (ex_world nt ''{v1.1.0}'') (metaPath_single ex_storage)
     = Some \<lparr>tag = ''v1.1.0'', downloadedAt = ''before''\<rparr>"
  "stored_json (parse_meta ex_rt) (ex_world nt ''{v1.2.0}'') (metaPath_single ex_storage)
     = Some \<lparr>tag = ''v1.2.0'', downloadedAt = ''before''\<rparr>"
  by (simp_all add: stored_json_def ex_rt_def)

lemma ex_release:
  "parse_release ex_rt ''{release v1.2.0}''
     = Inr \<lparr>tag_name = ''v1.2.0'',
            assets = Some [\<lparr>name = ''php-cs-fixer-lsp.phar'',
                            browser_download_url = ''https://example.org/phar''\<rparr>]\<rparr>"
  by (simp add: ex_rt_def)

lemma ex_stringify: "stringify_meta ex_rt \<lparr>tag = t, downloadedAt = d\<rparr> = ''{'' @ t @ ''}''"
  by (simp add: ex_rt_def)

lemma ex_lookup:
  assumes "net w = ex_net"
  shows "fetchLatestReleaseAsset ex_rt SERVER_REPO SERVER_ASSET w
           = Some (Inr \<lparr>asset_tag = ''v1.2.0'', asset_url = ''https://example.org/phar''\<rparr>,
                   sent (releases_url SERVER_REPO) json_headers w)"
proof -
  have "chain (net w) (releases_url SERVER_REPO) [] ''{release v1.2.0}''"
    by (simp add: assms ex_net_simps)
  from fetchJson_chain [where parse = "parse_release ex_rt" and rt = ex_rt, OF this ex_release] show ?thesis
    by (simp add: fetchLatestReleaseAsset_def bind_io_def find_asset_def SERVER_ASSET_def
          return_io_def asked_one [symmetric])
qed

lemma ex_lookup_single:
  assumes "net w = ex_net"
  shows "fetchLatestRelease ex_rt w
           = Some (Inr \<lparr>latest_tag = ''v1.2.0'', downloadUrl = ''https://example.org/phar''\<rparr>,
                   sent latest_release_url json_headers w)"
proof -
  have "chain (net w) latest_release_url [] ''{release v1.2.0}''"
    by (simp add: assms ex_net_simps)
  from getJson_chain [where parse = "parse_release ex_rt" and rt = ex_rt, OF this ex_release] show ?thesis
    by (simp add: fetchLatestRelease_def bind_io_def ASSET_NAME_def
          return_io_def asked_one [symmetric])
qed

lemma offline_lookup:
  assumes "net w = offline_net"
  shows "fetchLatestReleaseAsset ex_rt SERVER_REPO SERVER_ASSET w
           = Some (Inl (Thrown ''ENOTFOUND''), sent (releases_url SERVER_REPO) json_headers w)"
    and "fetchLatestRelease ex_rt w
           = Some (Inl (Thrown ''ENOTFOUND''), sent latest_release_url json_headers w)"
  by (simp_all add: fetchLatestReleaseAsset_def fetchLatestRelease_def bind_io_def assms
        offline_net_def fetchJson.simps [of ex_rt "parse_release ex_rt" "releases_url SERVER_REPO" w]
        getJson.simps [of ex_rt "parse_release ex_rt" latest_release_url w])

lemma w_fresh_simps:
  "net w_fresh = ex_net" "disk w_fresh = (\<lambda>p. Stream_ok)" "clock w_fresh = ''now''"
  "downloads w_fresh = []" "steps_succeed w_fresh e m"
  "files w_fresh (execPath ex_storage) = Some \<lparr>content = ''PHAR 1.1.0'', mode = mode_755\<rparr>"
  "files w_fresh (binaryPath ex_storage) = Some \<lparr>content = ''PHAR 1.1.0'', mode = mode_755\<rparr>"
  "files w_fresh (metaPath ex_storage) = Some \<lparr>content = ''{v1.2.0}'', mode = default_mode\<rparr>"
  "stored_json (parse_meta ex_rt) w_fresh (metaPath ex_storage)
     = Some \<lparr>tag = ''v1.2.0'', downloadedAt = ''before''\<rparr>"
  "stored_json (parse_meta ex_rt) w_fresh (metaPath_single ex_storage)
     = Some \<lparr>tag = ''v1.2.0'', downloadedAt = ''before''\<rparr>"
  by (simp_all add: w_fresh_def ex_cached ex_world_def [of ex_net "''{v1.2.0}''", THEN arg_cong [of _ _ disk]])

lemma w_stale_simps:
  "net w_stale = ex_net" "disk w_stale = (\<lambda>p. Stream_ok)" "clock w_stale = ''now''"
  "downloads w_stale = []" "steps_succeed w_stale e m"
  "files w_stale (execPath ex_storage) = Some \<lparr>content = ''PHAR 1.1.0'', mode = mode_755\<rparr>"
  "files w_stale (binaryPath ex_storage) = Some \<lparr>content = ''PHAR 1.1.0'', mode = mode_755\<rparr>"
  "files w_stale (metaPath ex_storage) = Some \<lparr>content = ''{v1.1.0}'', mode = default_mode\<rparr>"
  "stored_json (parse_meta ex_rt) w_stale (metaPath ex_storage)
     = Some \<lparr>tag = ''v1.1.0'', downloadedAt = ''before''\<rparr>"
  "stored_json (parse_meta ex_rt) w_stale (metaPath_single ex_storage)
     = Some \<lparr>tag = ''v1.1.0'', downloadedAt = ''before''\<rparr>"
  by (simp_all add: w_stale_def ex_cached ex_world_def [of ex_net "''{v1.1.0}''", THEN arg_cong [of _ _ disk]])

lemma lookup_fresh:
  "fetchLatestRelease ex_rt w_fresh
     = Some (Inr \<lparr>latest_tag = ''v1.2.0'', downloadUrl = ''https://example.org/phar''\<rparr>,
             sent latest_release_url json_headers w_fresh)"
  "fetchLatestReleaseAsset ex_rt SERVER_REPO SERVER_ASSET w_fresh
     = Some (Inr \<lparr>asset_tag = ''v1.2.0'', asset_url = ''https://example.org/phar''\<rparr>,
             sent (releases_url SERVER_REPO) json_headers w_fresh)"
  by (simp_all add: ex_lookup ex_lookup_single w_fresh_simps)

lemma lookup_stale:
  "fetchLatestRelease ex_rt w_stale
     = Some (Inr \<lparr>latest_tag = ''v1.2.0'', downloadUrl = ''https://example.org/phar''\<rparr>,
             sent latest_release_url json_headers w_stale)"
  "fetchLatestReleaseAsset ex_rt SERVER_REPO SERVER_ASSET w_stale
     = Some (Inr \<lparr>asset_tag = ''v1.2.0'', asset_url = ''https://example.org/phar''\<rparr>,
             sent (releases_url SERVER_REPO) json_headers w_stale)"
  by (simp_all add: ex_lookup ex_lookup_single w_stale_simps)

lemma ex_refresh:
  assumes "net w = ex_net" "steps_succeed w exec meta" "meta \<noteq> exec" "meta \<noteq> exec @ ''.tmp''"
  shows "\<exists>w'. refresh ex_rt \<lparr>asset_tag = ''v1.2.0'', asset_url = ''https://example.org/phar''\<rparr>
               exec meta w = Some (Inr exec, w')
            \<and> files w' exec = Some \<lparr>content = ''PHAR 1.2.0'', mode = mode_755\<rparr>
            \<and> downloads w'
                = downloads w @ [''https://example.org/phar'', ''https://cdn.example.org/phar'']
            \<and> same_outside w w'"
proof -
  have c: "chain (net w) (asset_url \<lparr>asset_tag = ''v1.2.0'', asset_url = ''https://example.org/phar''\<rparr>)
             [''https://cdn.example.org/phar''] ''PHAR 1.2.0''"
    using ex_chain by (simp only: assms(1) Asset.simps Latest.simps)
  from refresh_chain [OF c assms(2,3,4), of ex_rt] obtain w' where
    r: "refresh ex_rt \<lparr>asset_tag = ''v1.2.0'', asset_url = ''https://example.org/phar''\<rparr>
               exec meta w = Some (Inr exec, w')"
    and f: "files w' exec = Some \<lparr>content = ''PHAR 1.2.0'', mode = mode_755\<rparr>"
    and dl: "downloads w'
                = downloads w @ [''https://example.org/phar'', ''https://cdn.example.org/phar'']"
    by auto
  from refresh_result [OF r assms(3,4)] have "same_outside w w'" by simp
  with r f dl show ?thesis by blast
qed

lemma ex_refresh_single:
  assumes "net w = ex_net" "steps_succeed w exec meta" "meta \<noteq> exec" "meta \<noteq> exec @ ''.tmp''"
  shows "\<exists>w'. refresh_single ex_rt
               \<lparr>latest_tag = ''v1.2.0'', downloadUrl = ''https://example.org/phar''\<rparr>
               exec meta w = Some (Inr exec, w')
            \<and> files w' exec = Some \<lparr>content = ''PHAR 1.2.0'', mode = mode_755\<rparr>
            \<and> downloads w'
                = downloads w @ [''https://example.org/phar'', ''https://cdn.example.org/phar'']
            \<and> same_outside w w'"
proof -
  have c: "chain (net w) (downloadUrl \<lparr>latest_tag = ''v1.2.0'', downloadUrl = ''https://example.org/phar''\<rparr>)
             [''https://cdn.example.org/phar''] ''PHAR 1.2.0''"
    using ex_chain by (simp only: assms(1) Asset.simps Latest.simps)
  from refresh_single_chain [OF c assms(2,3,4), of ex_rt] obtain w' where
    r: "refresh_single ex_rt \<lparr>latest_tag = ''v1.2.0'', downloadUrl = ''https://example.org/phar''\<rparr>
               exec meta w = Some (Inr exec, w')"
    and f: "files w' exec = Some \<lparr>content = ''PHAR 1.2.0'', mode = mode_755\<rparr>"
    and dl: "downloads w'
                = downloads w @ [''https://example.org/phar'', ''https://cdn.example.org/phar'']"
    by auto
  from refresh_single_result [OF r assms(3,4)] have "same_outside w w'" by simp
  with r f dl show ?thesis by blast
qed

lemma fresh_forced:
  "downloadServerExec ex_rt ex_storage True w_fresh
     = Some (Inr (execPath ex_storage), sent (releases_url SERVER_REPO) json_headers w_fresh)"
  by (simp add: downloadServerExec_cases w_fresh_def ex_lookup ex_cached)

lemma stale_unforced:
  "downloadServerExec ex_rt ex_storage False w_stale = Some (Inr (execPath ex_storage), w_stale)"
  by (simp add: downloadServerExec_cases w_stale_def)

lemma offline_forced:
  "downloadServerExec ex_rt ex_storage True w_offline
     = Some (Inl (Thrown ''ENOTFOUND''), sent (releases_url SERVER_REPO) json_headers w_offline)"
  by (simp add: downloadServerExec_cases w_offline_def offline_lookup)

lemma decimal_404: "decimal 404 = ''404''"
  by (simp add: decimal.simps digit_char_def)

lemma decimal_204: "decimal 204 = ''204''"
  by (simp add: decimal.simps digit_char_def)


lemma w_noexec_simps:
  "net w_noexec = ex_net" "disk w_noexec p = Stream_ok" "clock w_noexec = ''now''"
  "rename_rejects w_noexec = None" "chmod_rejects w_noexec = Some (Thrown ''EPERM'')"
  "files w_noexec = Map.empty" "requests w_noexec = []" "downloads w_noexec = []"
  by (simp_all add: w_noexec_def downloads_def)

lemma w_full_simps:
  "net w_full = ex_net" "disk w_full p = Write_failed 4 (Thrown ''ENOSPC'')"
  "clock w_full = ''now''" "rename_rejects w_full = None" "chmod_rejects w_full = None"
  "files w_full = Map.empty" "requests w_full = []" "downloads w_full = []"
  by (simp_all add: w_full_def downloads_def)

lemma noexec_run:
  "observe (execPath ex_storage) (downloadServerExec ex_rt ex_storage False w_noexec)
     = Some (Inl (Thrown ''EPERM''),
             [''https://example.org/phar'', ''https://cdn.example.org/phar''],
             Some \<lparr>content = ''PHAR 1.2.0'', mode = default_mode\<rparr>)"
proof -
  let ?asset = "\<lparr>asset_tag = ''v1.2.0'', asset_url = ''https://example.org/phar''\<rparr>"
  let ?w1 = "sent (releases_url SERVER_REPO) json_headers w_noexec"
  have c: "chain (net ?w1) ''https://example.org/phar'' [''https://cdn.example.org/phar'']
             ''PHAR 1.2.0''"
    using ex_chain by (simp add: w_noexec_simps)
  have "downloadServerExec ex_rt ex_storage False w_noexec
          = refresh ex_rt ?asset (execPath ex_storage) (metaPath ex_storage) ?w1"
    by (simp add: downloadServerExec_cases ex_lookup w_noexec_simps stored_json_def)
  then show ?thesis
    by (simp add: refresh_def download_chain_pipe [OF c] pipe_to_file_def rename_def chmod_def
          bind_io_def w_noexec_simps Let_def)
qed

lemma full_run:
  "downloadServerExec ex_rt ex_storage False w_full = Some (Inl (Thrown ''ENOSPC''), w_full_after)"
proof -
  let ?asset = "\<lparr>asset_tag = ''v1.2.0'', asset_url = ''https://example.org/phar''\<rparr>"
  let ?w1 = "sent (releases_url SERVER_REPO) json_headers w_full"
  have c: "chain (net ?w1) ''https://example.org/phar'' [''https://cdn.example.org/phar'']
             ''PHAR 1.2.0''"
    using ex_chain by (simp add: w_full_simps)
  have "downloadServerExec ex_rt ex_storage False w_full
          = refresh ex_rt ?asset (execPath ex_storage) (metaPath ex_storage) ?w1"
    by (simp add: downloadServerExec_cases ex_lookup w_full_simps stored_json_def)
  then show ?thesis
    by (simp add: refresh_def download_chain_pipe [OF c] pipe_to_file_def bind_io_def
          w_full_simps w_full_after_def Let_def)
qed

lemma w_full_after_files:
  "files w_full_after (execPath ex_storage) = None"
  "files w_full_after (execPath ex_storage @ ''.tmp'')
     = Some \<lparr>content = ''PHAR'', mode = default_mode\<rparr>"
  by (simp_all add: w_full_after_def w_full_simps)



section \<open>The properties\<close>

subsection \<open>The HTTP helpers\<close>

text \<open>
  C5. A response whose status is neither in the 2xx range nor a redirect makes both
  \<open>fetchJson\<close> and \<open>download\<close> reject with an error whose message ends in that status
  code, and \<open>download\<close> has then written no file: the world it leaves differs from the one
  it started in only by the request sent.
\<close>

theorem failure_status_rejects:
  assumes "net w url = Reply res" and "\<not> is_2xx (statusCode res)" and "\<not> is_redirect res"
  shows "fetchJson rt parse url w
           = Some (Inl (new_Error rt (''GitHub API responded with status ''
                                      @ show_status (statusCode res))),
                   sent url json_headers w)
       \<and> download rt url path w
           = Some (Inl (new_Error rt (''Download failed with status ''
                                      @ show_status (statusCode res))),
                   sent url download_headers w)
       \<and> files (sent url download_headers w) = files w"
proof -
  have t: "redirect_target res = None" using assms(3) by (rule not_redirect_target)
  have s: "statusCode res \<noteq> Some 200" using assms(2) by (auto simp: is_2xx_def)
  show ?thesis
    by (simp add: fetchJson.simps [of rt parse url w] download.simps [of rt url path w] assms(1) t s)
qed

text \<open>A 404 answer: both calls reject with ``status 404'', and no file appears.\<close>

theorem failure_status_rejects_witness:
  "fetchJson ex_rt Inr ''https://example.org/gone'' (ex_empty ex_net)
     = Some (Inl (Error_obj ''GitHub API responded with status 404'' None),
             sent ''https://example.org/gone'' json_headers (ex_empty ex_net))
   \<and> download ex_rt ''https://example.org/gone'' ''/data/phar'' (ex_empty ex_net)
     = Some (Inl (Error_obj ''Download failed with status 404'' None),
             sent ''https://example.org/gone'' download_headers (ex_empty ex_net))
   \<and> files (sent ''https://example.org/gone'' download_headers (ex_empty ex_net)) ''/data/phar'' = None"
  using failure_status_rejects [of "ex_empty ex_net" "''https://example.org/gone''"
      "\<lparr>statusCode = Some 404, location = None, body = ''Not Found''\<rparr>" ex_rt Inr "''/data/phar''"]
  by (simp add: ex_net_simps(5) is_2xx_def is_redirect_def decimal_404 new_Error_def ex_rt_def)

text \<open>
  C7. Along a chain of redirects (each with a status from 300 to 399 and a location that
  names the next address) ending in a 200 response, \<open>fetchJson\<close> and \<open>download\<close>
  request every address of the chain in turn, each time with their own headers, and
  resolve with the final payload: \<open>fetchJson\<close> with what \<open>JSON.parse\<close> makes of it,
  \<open>download\<close> with the payload written to the path once the write stream finishes.
\<close>

theorem redirects_are_followed:
  assumes "chain (net w) u vs payload"
  shows "(\<forall>j. parse payload = Inr j \<longrightarrow>
            fetchJson rt parse u w = Some (Inr j, asked json_headers (u # vs) w))
       \<and> (disk w path = Stream_ok \<longrightarrow>
            download rt u path w
              = Some (Inr (), written path payload (asked download_headers (u # vs) w)))"
  using assms by (simp add: fetchJson_chain download_chain)

text \<open>One hop to a content server: two requests, the final body as the result.\<close>

theorem redirects_are_followed_witness:
  "chain (net (ex_empty ex_net)) ''https://example.org/phar'' [''https://cdn.example.org/phar''] ''PHAR 1.2.0''
   \<and> fetchJson ex_rt Inr ''https://example.org/phar'' (ex_empty ex_net)
       = Some (Inr ''PHAR 1.2.0'',
               asked json_headers [''https://example.org/phar'', ''https://cdn.example.org/phar'']
                 (ex_empty ex_net))
   \<and> download ex_rt ''https://example.org/phar'' ''/data/phar.tmp'' (ex_empty ex_net)
       = Some (Inr (), written ''/data/phar.tmp'' ''PHAR 1.2.0''
                 (asked download_headers
                    [''https://example.org/phar'', ''https://cdn.example.org/phar'']
                    (ex_empty ex_net)))"
  using redirects_are_followed [of "ex_empty ex_net" "''https://example.org/phar''"
      "[''https://cdn.example.org/phar'']" "''PHAR 1.2.0''" Inr ex_rt "''/data/phar.tmp''"]
    ex_chain
  by simp

text \<open>
  C10. A response with a status in the 2xx range other than 200 makes \<open>fetchJson\<close>,
  \<open>download\<close> and \<open>getJson\<close> reject with an error carrying that status: only 200 is
  taken as success.
\<close>

theorem only_200_succeeds:
  assumes "net w url = Reply res" and "statusCode res = Some s"
    and "200 \<le> s" and "s < 300" and "s \<noteq> 200"
  shows "fetchJson rt parse url w
           = Some (Inl (new_Error rt (''GitHub API responded with status '' @ decimal s)),
                   sent url json_headers w)
       \<and> download rt url path w
           = Some (Inl (new_Error rt (''Download failed with status '' @ decimal s)),
                   sent url download_headers w)
       \<and> getJson rt parse url w
           = Some (Inl (new_Error rt (''GitHub API responded with status '' @ decimal s)),
                   sent url json_headers w)"
proof -
  have t: "redirect_target res = None"
    using assms(2,4) by (simp add: redirect_target_def)
  show ?thesis
    by (simp add: fetchJson.simps [of rt parse url w] download.simps [of rt url path w]
          getJson.simps [of rt parse url w] assms(1,2,5) t)
qed

text \<open>A 204 answer is rejected by all three.\<close>

theorem only_200_succeeds_witness:
  "fetchJson ex_rt Inr ''https://example.org/empty'' (ex_empty ex_net)
     = Some (Inl (Error_obj ''GitHub API responded with status 204'' None),
             sent ''https://example.org/empty'' json_headers (ex_empty ex_net))
   \<and> download ex_rt ''https://example.org/empty'' ''/data/phar'' (ex_empty ex_net)
     = Some (Inl (Error_obj ''Download failed with status 204'' None),
             sent ''https://example.org/empty'' download_headers (ex_empty ex_net))
   \<and> getJson ex_rt Inr ''https://example.org/empty'' (ex_empty ex_net)
     = Some (Inl (Error_obj ''GitHub API responded with status 204'' None),
             sent ''https://example.org/empty'' json_headers (ex_empty ex_net))"
proof -
  have n: "net (ex_empty ex_net) ''https://example.org/empty''
             = Reply \<lparr>statusCode = Some 204, location = None, body = []\<rparr>"
    by (simp add: ex_net_def latest_release_url_def GH_OWNER_def GH_REPO_def)
  have e: "new_Error ex_rt m = Error_obj m None" for m
    by (simp add: new_Error_def ex_rt_def)
  from only_200_succeeds [OF n, of 204 ex_rt Inr "''/data/phar''"]
  show ?thesis by (simp add: decimal_204 e)
qed

subsection \<open>The installers\<close>

text \<open>
  C1, as the code has it. When the latest release is resolved and the caller forces the
  install, \<open>ensureDownloadedBinary\<close> goes on to the download whatever the cache holds,
  and every run of it that ends has requested the download address. \<open>downloadServerExec\<close>
  goes on to the download unless the cached tag equals the latest tag and the binary is
  there; in that case it returns the path of the binary and downloads nothing.
\<close>

theorem forced_install_downloads:
  "(fetchLatestRelease rt w = Some (Inr latest, w1) \<longrightarrow>
      ensureDownloadedBinary rt storage True w
        = refresh_single rt latest (binaryPath storage) (metaPath_single storage) w1
      \<and> (\<forall>r w'. refresh_single rt latest (binaryPath storage) (metaPath_single storage) w1
                   = Some (r, w')
                 \<longrightarrow> (\<exists>rest. downloads w' = downloads w @ downloadUrl latest # rest)))
   \<and> (fetchLatestReleaseAsset rt SERVER_REPO SERVER_ASSET w = Some (Inr asset, w2) \<longrightarrow>
        downloadServerExec rt storage True w
          = (if same_tag (stored_json (parse_meta rt) w (metaPath storage)) (asset_tag asset)
                \<and> files w (execPath storage) \<noteq> None
             then Some (Inr (execPath storage), w2)
             else refresh rt asset (execPath storage) (metaPath storage) w2)
        \<and> downloads w2 = downloads w
        \<and> (\<forall>r w'. refresh rt asset (execPath storage) (metaPath storage) w2 = Some (r, w')
                   \<longrightarrow> (\<exists>rest. downloads w' = downloads w @ asset_url asset # rest)))"
proof (intro conjI impI allI)
  assume a: "fetchLatestRelease rt w = Some (Inr latest, w1)"
  then have q: "quiet w w1" by (rule fetchLatestRelease_quiet)
  from a show "ensureDownloadedBinary rt storage True w
        = refresh_single rt latest (binaryPath storage) (metaPath_single storage) w1"
    by (simp add: ensureDownloadedBinary_cases)
  fix r w'
  assume "refresh_single rt latest (binaryPath storage) (metaPath_single storage) w1 = Some (r, w')"
  from refresh_single_result [OF this] q
  show "\<exists>rest. downloads w' = downloads w @ downloadUrl latest # rest"
    by (simp add: quiet_def)
next
  assume a: "fetchLatestReleaseAsset rt SERVER_REPO SERVER_ASSET w = Some (Inr asset, w2)"
  then have q: "quiet w w2" by (rule fetchLatestReleaseAsset_quiet)
  from q show "downloads w2 = downloads w" by (simp add: quiet_def)
  from a q show "downloadServerExec rt storage True w
          = (if same_tag (stored_json (parse_meta rt) w (metaPath storage)) (asset_tag asset)
                \<and> files w (execPath storage) \<noteq> None
             then Some (Inr (execPath storage), w2)
             else refresh rt asset (execPath storage) (metaPath storage) w2)"
    by (simp add: downloadServerExec_cases quiet_def)
  fix r w'
  assume "refresh rt asset (execPath storage) (metaPath storage) w2 = Some (r, w')"
  from refresh_result [OF this] q
  show "\<exists>rest. downloads w' = downloads w @ asset_url asset # rest"
    by (simp add: quiet_def)
qed

text \<open>
  A forced \<open>ensureDownloadedBinary\<close> downloads although the cache is up to date; a forced
  \<open>downloadServerExec\<close> downloads when the cache is stale and not when it is up to date.
\<close>

theorem forced_install_downloads_witness:
  "observe (binaryPath ex_storage) (ensureDownloadedBinary ex_rt ex_storage True w_fresh)
     = Some (Inr (binaryPath ex_storage),
             [''https://example.org/phar'', ''https://cdn.example.org/phar''],
             Some \<lparr>content = ''PHAR 1.2.0'', mode = mode_755\<rparr>)
   \<and> observe (execPath ex_storage) (downloadServerExec ex_rt ex_storage True w_stale)
     = Some (Inr (execPath ex_storage),
             [''https://example.org/phar'', ''https://cdn.example.org/phar''],
             Some \<lparr>content = ''PHAR 1.2.0'', mode = mode_755\<rparr>)
   \<and> observe (execPath ex_storage) (downloadServerExec ex_rt ex_storage True w_fresh)
     = Some (Inr (execPath ex_storage), [],
             Some \<lparr>content = ''PHAR 1.1.0'', mode = mode_755\<rparr>)"
proof -
  let ?latest = "\<lparr>latest_tag = ''v1.2.0'', downloadUrl = ''https://example.org/phar''\<rparr>"
  let ?asset = "\<lparr>asset_tag = ''v1.2.0'', asset_url = ''https://example.org/phar''\<rparr>"
  let ?f1 = "sent latest_release_url json_headers w_fresh"
  let ?f2 = "sent (releases_url SERVER_REPO) json_headers w_fresh"
  let ?s1 = "sent latest_release_url json_headers w_stale"
  let ?s2 = "sent (releases_url SERVER_REPO) json_headers w_stale"
  from forced_install_downloads [of ex_rt w_fresh ?latest ?f1 ex_storage ?asset ?f2]
  have a: "ensureDownloadedBinary ex_rt ex_storage True w_fresh
             = refresh_single ex_rt ?latest (binaryPath ex_storage) (metaPath_single ex_storage) ?f1"
    and b: "downloadServerExec ex_rt ex_storage True w_fresh = Some (Inr (execPath ex_storage), ?f2)"
    by (simp_all add: lookup_fresh w_fresh_simps)
  from forced_install_downloads [of ex_rt w_stale ?latest ?s1 ex_storage ?asset ?s2]
  have c: "downloadServerExec ex_rt ex_storage True w_stale
             = refresh ex_rt ?asset (execPath ex_storage) (metaPath ex_storage) ?s2"
    by (simp add: lookup_stale w_stale_simps)
  from ex_refresh_single [where w = ?f1 and meta = "metaPath_single ex_storage" and exec = "binaryPath ex_storage"]
  obtain w' where "refresh_single ex_rt ?latest (binaryPath ex_storage) (metaPath_single ex_storage) ?f1
      = Some (Inr (binaryPath ex_storage), w')"
    "files w' (binaryPath ex_storage) = Some \<lparr>content = ''PHAR 1.2.0'', mode = mode_755\<rparr>"
    "downloads w' = [''https://example.org/phar'', ''https://cdn.example.org/phar'']"
    by (auto simp: w_fresh_simps)
  then have 1: "observe (binaryPath ex_storage) (ensureDownloadedBinary ex_rt ex_storage True w_fresh)
     = Some (Inr (binaryPath ex_storage),
             [''https://example.org/phar'', ''https://cdn.example.org/phar''],
             Some \<lparr>content = ''PHAR 1.2.0'', mode = mode_755\<rparr>)"
    by (simp add: a)
  from ex_refresh [where w = ?s2 and meta = "metaPath ex_storage" and exec = "execPath ex_storage"]
  obtain w'' where "refresh ex_rt ?asset (execPath ex_storage) (metaPath ex_storage) ?s2
      = Some (Inr (execPath ex_storage), w'')"
    "files w'' (execPath ex_storage) = Some \<lparr>content = ''PHAR 1.2.0'', mode = mode_755\<rparr>"
    "downloads w'' = [''https://example.org/phar'', ''https://cdn.example.org/phar'']"
    by (auto simp: w_stale_simps)
  then have 2: "observe (execPath ex_storage) (downloadServerExec ex_rt ex_storage True w_stale)
     = Some (Inr (execPath ex_storage),
             [''https://example.org/phar'', ''https://cdn.example.org/phar''],
             Some \<lparr>content = ''PHAR 1.2.0'', mode = mode_755\<rparr>)"
    by (simp add: c)
  have 3: "observe (execPath ex_storage) (downloadServerExec ex_rt ex_storage True w_fresh)
     = Some (Inr (execPath ex_storage), [],
             Some \<lparr>content = ''PHAR 1.1.0'', mode = mode_755\<rparr>)"
    by (simp add: b w_fresh_simps)
  from 1 2 3 show ?thesis by (intro conjI)
qed

text \<open>
  C1 as stated fails: with the cached tag equal to the latest tag and the binary present,
  \<open>downloadServerExec\<close> called with \<open>update = true\<close> returns the path, requests no
  download and leaves the old binary.
\<close>

theorem forced_up_to_date_counterexample:
  "stored_json (parse_meta ex_rt) w_fresh (metaPath ex_storage)
     = Some \<lparr>tag = ''v1.2.0'', downloadedAt = ''before''\<rparr>
   \<and> fetchLatestReleaseAsset ex_rt SERVER_REPO SERVER_ASSET w_fresh
       = Some (Inr \<lparr>asset_tag = ''v1.2.0'', asset_url = ''https://example.org/phar''\<rparr>,
               sent (releases_url SERVER_REPO) json_headers w_fresh)
   \<and> observe (execPath ex_storage) (downloadServerExec ex_rt ex_storage True w_fresh)
       = Some (Inr (execPath ex_storage), [],
               Some \<lparr>content = ''PHAR 1.1.0'', mode = mode_755\<rparr>)"
  by (simp add: fresh_forced lookup_fresh w_fresh_simps)

text \<open>
  C2, as the code has it. With the latest release resolved, a cached tag that differs from
  it, and a download that succeeds, together with the steps that follow it (the rename, the
  chmod and the write of the metadata), \<open>ensureDownloadedBinary\<close> without force and
  \<open>downloadServerExec\<close> with \<open>update = true\<close> put the downloaded bytes at the final path
  with mode 0o755 and write metadata with the latest tag. \<open>downloadServerExec\<close> with
  \<open>update = false\<close> returns the binary that is there and changes nothing.
\<close>

theorem stale_binary_is_refreshed:
  "(fetchLatestRelease rt w = Some (Inr latest, w1)
      \<and> \<not> same_tag (stored_json (parse_meta rt) w (metaPath_single storage)) (latest_tag latest)
      \<and> chain (net w) (downloadUrl latest) vs payload
      \<and> steps_succeed w (binaryPath storage) (metaPath_single storage)
    \<longrightarrow> (\<exists>w'. ensureDownloadedBinary rt storage False w = Some (Inr (binaryPath storage), w')
              \<and> files w' (binaryPath storage) = Some \<lparr>content = payload, mode = mode_755\<rparr>
              \<and> (\<exists>m. files w' (metaPath_single storage)
                     = Some \<lparr>content = stringify_meta rt
                                         \<lparr>tag = latest_tag latest, downloadedAt = clock w\<rparr>,
                             mode = m\<rparr>)
              \<and> downloads w' = downloads w @ downloadUrl latest # vs))
   \<and> (fetchLatestReleaseAsset rt SERVER_REPO SERVER_ASSET w = Some (Inr asset, w2)
      \<and> \<not> same_tag (stored_json (parse_meta rt) w (metaPath storage)) (asset_tag asset)
      \<and> chain (net w) (asset_url asset) us bytes
      \<and> steps_succeed w (execPath storage) (metaPath storage)
    \<longrightarrow> (\<exists>w'. downloadServerExec rt storage True w = Some (Inr (execPath storage), w')
              \<and> files w' (execPath storage) = Some \<lparr>content = bytes, mode = mode_755\<rparr>
              \<and> (\<exists>m. files w' (metaPath storage)
                     = Some \<lparr>content = stringify_meta rt
                                         \<lparr>tag = asset_tag asset, downloadedAt = clock w\<rparr>,
                             mode = m\<rparr>)
              \<and> downloads w' = downloads w @ asset_url asset # us))
   \<and> (files w (execPath storage) \<noteq> None \<longrightarrow>
        downloadServerExec rt storage False w = Some (Inr (execPath storage), w))"
proof (intro conjI impI)
  assume a: "fetchLatestRelease rt w = Some (Inr latest, w1)
      \<and> \<not> same_tag (stored_json (parse_meta rt) w (metaPath_single storage)) (latest_tag latest)
      \<and> chain (net w) (downloadUrl latest) vs payload
      \<and> steps_succeed w (binaryPath storage) (metaPath_single storage)"
  then have "fetchLatestRelease rt w = Some (Inr latest, w1)"
    "False \<or> files w (binaryPath storage) = None
       \<or> \<not> same_tag (stored_json (parse_meta rt) w (metaPath_single storage)) (latest_tag latest)"
    "chain (net w) (downloadUrl latest) vs payload"
    "steps_succeed w (binaryPath storage) (metaPath_single storage)"
    by simp_all
  from ensureDownloadedBinary_installs [OF this]
  show "\<exists>w'. ensureDownloadedBinary rt storage False w = Some (Inr (binaryPath storage), w')
              \<and> files w' (binaryPath storage) = Some \<lparr>content = payload, mode = mode_755\<rparr>
              \<and> (\<exists>m. files w' (metaPath_single storage)
                     = Some \<lparr>content = stringify_meta rt
                                         \<lparr>tag = latest_tag latest, downloadedAt = clock w\<rparr>,
                             mode = m\<rparr>)
              \<and> downloads w' = downloads w @ downloadUrl latest # vs"
    by blast
next
  assume a: "fetchLatestReleaseAsset rt SERVER_REPO SERVER_ASSET w = Some (Inr asset, w2)
      \<and> \<not> same_tag (stored_json (parse_meta rt) w (metaPath storage)) (asset_tag asset)
      \<and> chain (net w) (asset_url asset) us bytes
      \<and> steps_succeed w (execPath storage) (metaPath storage)"
  then have "fetchLatestReleaseAsset rt SERVER_REPO SERVER_ASSET w = Some (Inr asset, w2)"
    "files w (execPath storage) = None
       \<or> True \<and> \<not> same_tag (stored_json (parse_meta rt) w (metaPath storage)) (asset_tag asset)"
    "chain (net w) (asset_url asset) us bytes"
    "steps_succeed w (execPath storage) (metaPath storage)"
    by simp_all
  from downloadServerExec_installs [OF this]
  show "\<exists>w'. downloadServerExec rt storage True w = Some (Inr (execPath storage), w')
              \<and> files w' (execPath storage) = Some \<lparr>content = bytes, mode = mode_755\<rparr>
              \<and> (\<exists>m. files w' (metaPath storage)
                     = Some \<lparr>content = stringify_meta rt
                                         \<lparr>tag = asset_tag asset, downloadedAt = clock w\<rparr>,
                             mode = m\<rparr>)
              \<and> downloads w' = downloads w @ asset_url asset # us"
    by blast
next
  assume "files w (execPath storage) \<noteq> None"
  then show "downloadServerExec rt storage False w = Some (Inr (execPath storage), w)"
    by (simp add: downloadServerExec_cases)
qed

text \<open>Cached ``v1.1.0'', latest ``v1.2.0'': the new binary and the new metadata are in place.\<close>

theorem stale_binary_is_refreshed_witness:
  "(\<exists>m. observe (metaPath_single ex_storage) (ensureDownloadedBinary ex_rt ex_storage False w_stale)
       = Some (Inr (binaryPath ex_storage),
               [''https://example.org/phar'', ''https://cdn.example.org/phar''],
               Some \<lparr>content = ''{v1.2.0}'', mode = m\<rparr>))
   \<and> observe (binaryPath ex_storage) (ensureDownloadedBinary ex_rt ex_storage False w_stale)
       = Some (Inr (binaryPath ex_storage),
               [''https://example.org/phar'', ''https://cdn.example.org/phar''],
               Some \<lparr>content = ''PHAR 1.2.0'', mode = mode_755\<rparr>)
   \<and> observe (execPath ex_storage) (downloadServerExec ex_rt ex_storage True w_stale)
       = Some (Inr (execPath ex_storage),
               [''https://example.org/phar'', ''https://cdn.example.org/phar''],
               Some \<lparr>content = ''PHAR 1.2.0'', mode = mode_755\<rparr>)
   \<and> downloadServerExec ex_rt ex_storage False w_stale = Some (Inr (execPath ex_storage), w_stale)"
proof -
  let ?latest = "\<lparr>latest_tag = ''v1.2.0'', downloadUrl = ''https://example.org/phar''\<rparr>"
  let ?asset = "\<lparr>asset_tag = ''v1.2.0'', asset_url = ''https://example.org/phar''\<rparr>"
  let ?s1 = "sent latest_release_url json_headers w_stale"
  let ?s2 = "sent (releases_url SERVER_REPO) json_headers w_stale"
  have c1: "chain (net w_stale) (downloadUrl ?latest) [''https://cdn.example.org/phar''] ''PHAR 1.2.0''"
    using ex_chain by (simp only: w_stale_simps Latest.simps)
  have c2: "chain (net w_stale) (asset_url ?asset) [''https://cdn.example.org/phar''] ''PHAR 1.2.0''"
    using ex_chain by (simp only: w_stale_simps Asset.simps)
  note t = stale_binary_is_refreshed [of ex_rt w_stale ?latest ?s1 ex_storage
      "[''https://cdn.example.org/phar'']" "''PHAR 1.2.0''" ?asset ?s2
      "[''https://cdn.example.org/phar'']" "''PHAR 1.2.0''"]
  from t c1 obtain w' m where 1:
    "ensureDownloadedBinary ex_rt ex_storage False w_stale = Some (Inr (binaryPath ex_storage), w')"
    "files w' (binaryPath ex_storage) = Some \<lparr>content = ''PHAR 1.2.0'', mode = mode_755\<rparr>"
    "files w' (metaPath_single ex_storage) = Some \<lparr>content = ''{v1.2.0}'', mode = m\<rparr>"
    "downloads w' = [''https://example.org/phar'', ''https://cdn.example.org/phar'']"
    by (auto simp: lookup_stale w_stale_simps ex_stringify)
  from t c2 obtain w'' where 2:
    "downloadServerExec ex_rt ex_storage True w_stale = Some (Inr (execPath ex_storage), w'')"
    "files w'' (execPath ex_storage) = Some \<lparr>content = ''PHAR 1.2.0'', mode = mode_755\<rparr>"
    "downloads w'' = [''https://example.org/phar'', ''https://cdn.example.org/phar'']"
    by (auto simp: lookup_stale w_stale_simps)
  from t have 3:
    "downloadServerExec ex_rt ex_storage False w_stale = Some (Inr (execPath ex_storage), w_stale)"
    by (simp add: w_stale_simps)
  from 1 have a: "\<exists>m. observe (metaPath_single ex_storage)
          (ensureDownloadedBinary ex_rt ex_storage False w_stale)
       = Some (Inr (binaryPath ex_storage),
               [''https://example.org/phar'', ''https://cdn.example.org/phar''],
               Some \<lparr>content = ''{v1.2.0}'', mode = m\<rparr>)"
    by simp
  from 1 have b: "observe (binaryPath ex_storage) (ensureDownloadedBinary ex_rt ex_storage False w_stale)
       = Some (Inr (binaryPath ex_storage),
               [''https://example.org/phar'', ''https://cdn.example.org/phar''],
               Some \<lparr>content = ''PHAR 1.2.0'', mode = mode_755\<rparr>)"
    by simp
  from 2 have c: "observe (execPath ex_storage) (downloadServerExec ex_rt ex_storage True w_stale)
       = Some (Inr (execPath ex_storage),
               [''https://example.org/phar'', ''https://cdn.example.org/phar''],
               Some \<lparr>content = ''PHAR 1.2.0'', mode = mode_755\<rparr>)"
    by simp
  from a b c 3 show ?thesis by (intro conjI)
qed

text \<open>
  C2 as stated fails: cached ``v1.1.0'', latest ``v1.2.0'', binary present, and
  \<open>downloadServerExec\<close> with \<open>update = false\<close> returns the path with no download, the
  old binary and the old metadata.
\<close>

theorem unforced_stale_counterexample:
  "stored_json (parse_meta ex_rt) w_stale (metaPath ex_storage)
     = Some \<lparr>tag = ''v1.1.0'', downloadedAt = ''before''\<rparr>
   \<and> fetchLatestReleaseAsset ex_rt SERVER_REPO SERVER_ASSET w_stale
       = Some (Inr \<lparr>asset_tag = ''v1.2.0'', asset_url = ''https://example.org/phar''\<rparr>,
               sent (releases_url SERVER_REPO) json_headers w_stale)
   \<and> observe (execPath ex_storage) (downloadServerExec ex_rt ex_storage False w_stale)
       = Some (Inr (execPath ex_storage), [],
               Some \<lparr>content = ''PHAR 1.1.0'', mode = mode_755\<rparr>)
   \<and> observe (metaPath ex_storage) (downloadServerExec ex_rt ex_storage False w_stale)
       = Some (Inr (execPath ex_storage), [],
               Some \<lparr>content = ''{v1.1.0}'', mode = default_mode\<rparr>)"
  by (simp add: stale_unforced) (simp add: w_stale_def ex_lookup ex_cached)

text \<open>
  C3, as the code has it. When the release lookup throws, \<open>ensureDownloadedBinary\<close>
  returns the path of the binary if one is there and throws the same error otherwise,
  forced or not. \<open>downloadServerExec\<close> with \<open>update = false\<close> does the same (it returns
  the binary that is there before any lookup); with \<open>update = true\<close> it throws the error
  whether or not a binary is there.
\<close>

theorem lookup_failure_falls_back:
  "(fetchLatestRelease rt w = Some (Inl e, w1) \<longrightarrow>
      ensureDownloadedBinary rt storage force w
        = Some (if files w (binaryPath storage) \<noteq> None then Inr (binaryPath storage) else Inl e,
                w1))
   \<and> (fetchLatestReleaseAsset rt SERVER_REPO SERVER_ASSET w = Some (Inl e2, w2) \<longrightarrow>
        downloadServerExec rt storage False w
          = (if files w (execPath storage) \<noteq> None then Some (Inr (execPath storage), w)
             else Some (Inl e2, w2))
        \<and> downloadServerExec rt storage True w = Some (Inl e2, w2))"
proof (intro conjI impI)
  assume a: "fetchLatestRelease rt w = Some (Inl e, w1)"
  then have "files w1 = files w" by (auto dest: fetchLatestRelease_quiet simp: quiet_def)
  with a show "ensureDownloadedBinary rt storage force w
        = Some (if files w (binaryPath storage) \<noteq> None then Inr (binaryPath storage) else Inl e,
                w1)"
    by (simp add: ensureDownloadedBinary_cases)
next
  assume a: "fetchLatestReleaseAsset rt SERVER_REPO SERVER_ASSET w = Some (Inl e2, w2)"
  then show "downloadServerExec rt storage False w
          = (if files w (execPath storage) \<noteq> None then Some (Inr (execPath storage), w)
             else Some (Inl e2, w2))"
    and "downloadServerExec rt storage True w = Some (Inl e2, w2)"
    by (simp_all add: downloadServerExec_cases)
qed

text \<open>Off line with a binary installed.\<close>

theorem lookup_failure_falls_back_witness:
  "ensureDownloadedBinary ex_rt ex_storage True w_offline
     = Some (Inr (binaryPath ex_storage), sent latest_release_url json_headers w_offline)
   \<and> downloadServerExec ex_rt ex_storage False w_offline
       = Some (Inr (execPath ex_storage), w_offline)
   \<and> downloadServerExec ex_rt ex_storage True w_offline
       = Some (Inl (Thrown ''ENOTFOUND''), sent (releases_url SERVER_REPO) json_headers w_offline)"
  using lookup_failure_falls_back [of ex_rt w_offline "Thrown ''ENOTFOUND''"
      "sent latest_release_url json_headers w_offline" ex_storage True "Thrown ''ENOTFOUND''"
      "sent (releases_url SERVER_REPO) json_headers w_offline"]
  by (simp add: w_offline_def offline_lookup)

text \<open>
  C3 as stated fails: the binary is present, the lookup throws, and \<open>downloadServerExec\<close>
  with \<open>update = true\<close> throws that error instead of returning the path.
\<close>

theorem forced_lookup_failure_counterexample:
  "files w_offline (execPath ex_storage) = Some \<lparr>content = ''PHAR 1.1.0'', mode = mode_755\<rparr>
   \<and> fetchLatestReleaseAsset ex_rt SERVER_REPO SERVER_ASSET w_offline
       = Some (Inl (Thrown ''ENOTFOUND''), sent (releases_url SERVER_REPO) json_headers w_offline)
   \<and> observe (execPath ex_storage) (downloadServerExec ex_rt ex_storage True w_offline)
       = Some (Inl (Thrown ''ENOTFOUND''), [],
               Some \<lparr>content = ''PHAR 1.1.0'', mode = mode_755\<rparr>)"
  by (simp add: offline_forced) (simp add: w_offline_def offline_lookup)

text \<open>
  C4. Without force, when the binary is there and the cached tag equals the latest tag,
  the install returns the path of that binary and downloads nothing.
  \<open>downloadServerExec\<close> does so as soon as the binary is there, with no request at all;
  \<open>ensureDownloadedBinary\<close> after the release lookup, which changes no file and requests
  no download.
\<close>

theorem up_to_date_binary_is_kept:
  "(files w (execPath storage) \<noteq> None \<longrightarrow>
      downloadServerExec rt storage False w = Some (Inr (execPath storage), w))
   \<and> (files w (binaryPath storage) \<noteq> None
        \<and> fetchLatestRelease rt w = Some (Inr latest, w1)
        \<and> same_tag (stored_json (parse_meta rt) w (metaPath_single storage)) (latest_tag latest)
      \<longrightarrow> ensureDownloadedBinary rt storage False w = Some (Inr (binaryPath storage), w1)
          \<and> files w1 = files w \<and> downloads w1 = downloads w)"
proof (intro conjI impI)
  assume "files w (execPath storage) \<noteq> None"
  then show "downloadServerExec rt storage False w = Some (Inr (execPath storage), w)"
    by (simp add: downloadServerExec_cases)
next
  assume a: "files w (binaryPath storage) \<noteq> None
        \<and> fetchLatestRelease rt w = Some (Inr latest, w1)
        \<and> same_tag (stored_json (parse_meta rt) w (metaPath_single storage)) (latest_tag latest)"
  then have q: "quiet w w1" by (auto dest: fetchLatestRelease_quiet)
  from q show "files w1 = files w" "downloads w1 = downloads w" by (simp_all add: quiet_def)
  from a q show "ensureDownloadedBinary rt storage False w = Some (Inr (binaryPath storage), w1)"
    by (simp add: ensureDownloadedBinary_cases quiet_def)
qed

text \<open>An up-to-date cache: the path comes back, the only request is the release lookup.\<close>

theorem up_to_date_binary_is_kept_witness:
  "downloadServerExec ex_rt ex_storage False w_fresh = Some (Inr (execPath ex_storage), w_fresh)
   \<and> ensureDownloadedBinary ex_rt ex_storage False w_fresh
       = Some (Inr (binaryPath ex_storage), sent latest_release_url json_headers w_fresh)
   \<and> files (sent latest_release_url json_headers w_fresh) = files w_fresh
   \<and> downloads (sent latest_release_url json_headers w_fresh) = downloads w_fresh"
  using up_to_date_binary_is_kept [of w_fresh ex_storage ex_rt
      "\<lparr>latest_tag = ''v1.2.0'', downloadUrl = ''https://example.org/phar''\<rparr>"
      "sent latest_release_url json_headers w_fresh"]
  by (simp add: w_fresh_def ex_lookup_single ex_cached)

text \<open>
  C6, as the code has it. An install downloads to the temporary path beside the final path,
  renames the temporary file over the final path and then marks it executable. So whatever
  way an install ends, the final path holds the entry it had before, or a complete download
  that came from the temporary path, which is then gone; that file has mode 0o755, unless
  \<open>chmod\<close> rejected and the install ended with its error. No path other than the final
  path, the temporary path and the metadata path changes, and a final path that was empty or
  a complete executable file stays so when \<open>chmod\<close> does not reject. When the release is
  resolved, a refresh is due and every step succeeds, the install returns the final path,
  which then holds the downloaded bytes with mode 0o755, and the temporary path is empty.
\<close>

theorem final_path_is_settled:
  "(downloadServerExec rt storage update w = Some (r, w') \<longrightarrow>
      settled w r w' (execPath storage)
      \<and> (\<forall>p. p \<noteq> execPath storage \<and> p \<noteq> execPath storage @ ''.tmp'' \<and> p \<noteq> metaPath storage
             \<longrightarrow> files w' p = files w p)
      \<and> (installed w (execPath storage) \<and> (chmod_rejects w = None \<or> (\<exists>q. r = Inr q))
           \<longrightarrow> installed w' (execPath storage)))
   \<and> (ensureDownloadedBinary rt storage force w = Some (r2, w2) \<longrightarrow>
      settled w r2 w2 (binaryPath storage)
      \<and> (\<forall>p. p \<noteq> binaryPath storage \<and> p \<noteq> binaryPath storage @ ''.tmp''
               \<and> p \<noteq> metaPath_single storage
             \<longrightarrow> files w2 p = files w p)
      \<and> (installed w (binaryPath storage) \<and> (chmod_rejects w = None \<or> (\<exists>q. r2 = Inr q))
           \<longrightarrow> installed w2 (binaryPath storage)))
   \<and> (fetchLatestReleaseAsset rt SERVER_REPO SERVER_ASSET w = Some (Inr asset, w3)
      \<and> (files w (execPath storage) = None
         \<or> update \<and> \<not> same_tag (stored_json (parse_meta rt) w (metaPath storage))
                                 (asset_tag asset))
      \<and> chain (net w) (asset_url asset) us bytes
      \<and> steps_succeed w (execPath storage) (metaPath storage)
    \<longrightarrow> (\<exists>w'. downloadServerExec rt storage update w = Some (Inr (execPath storage), w')
              \<and> files w' (execPath storage) = Some \<lparr>content = bytes, mode = mode_755\<rparr>
              \<and> files w' (execPath storage @ ''.tmp'') = None))
   \<and> (fetchLatestRelease rt w = Some (Inr latest, w4)
      \<and> (force \<or> files w (binaryPath storage) = None
         \<or> \<not> same_tag (stored_json (parse_meta rt) w (metaPath_single storage))
                      (latest_tag latest))
      \<and> chain (net w) (downloadUrl latest) vs payload
      \<and> steps_succeed w (binaryPath storage) (metaPath_single storage)
    \<longrightarrow> (\<exists>w'. ensureDownloadedBinary rt storage force w = Some (Inr (binaryPath storage), w')
              \<and> files w' (binaryPath storage) = Some \<lparr>content = payload, mode = mode_755\<rparr>
              \<and> files w' (binaryPath storage @ ''.tmp'') = None))"
proof (intro conjI impI)
  assume run: "downloadServerExec rt storage update w = Some (r, w')"
  note f = downloadServerExec_final [OF run]
  from f show "settled w r w' (execPath storage)" by simp
  from f show "\<forall>p. p \<noteq> execPath storage \<and> p \<noteq> execPath storage @ ''.tmp'' \<and> p \<noteq> metaPath storage
             \<longrightarrow> files w' p = files w p" by simp
  assume "installed w (execPath storage) \<and> (chmod_rejects w = None \<or> (\<exists>q. r = Inr q))"
  with f show "installed w' (execPath storage)"
    by (blast intro: installed_kept)
next
  assume run: "ensureDownloadedBinary rt storage force w = Some (r2, w2)"
  note f = ensureDownloadedBinary_final [OF run]
  from f show "settled w r2 w2 (binaryPath storage)" by simp
  from f show "\<forall>p. p \<noteq> binaryPath storage \<and> p \<noteq> binaryPath storage @ ''.tmp''
               \<and> p \<noteq> metaPath_single storage
             \<longrightarrow> files w2 p = files w p" by simp
  assume "installed w (binaryPath storage) \<and> (chmod_rejects w = None \<or> (\<exists>q. r2 = Inr q))"
  with f show "installed w2 (binaryPath storage)"
    by (blast intro: installed_kept)
next
  assume "fetchLatestReleaseAsset rt SERVER_REPO SERVER_ASSET w = Some (Inr asset, w3)
      \<and> (files w (execPath storage) = None
         \<or> update \<and> \<not> same_tag (stored_json (parse_meta rt) w (metaPath storage))
                                 (asset_tag asset))
      \<and> chain (net w) (asset_url asset) us bytes
      \<and> steps_succeed w (execPath storage) (metaPath storage)"
  then have "fetchLatestReleaseAsset rt SERVER_REPO SERVER_ASSET w = Some (Inr asset, w3)"
    "files w (execPath storage) = None
       \<or> update \<and> \<not> same_tag (stored_json (parse_meta rt) w (metaPath storage)) (asset_tag asset)"
    "chain (net w) (asset_url asset) us bytes"
    "steps_succeed w (execPath storage) (metaPath storage)"
    by blast+
  from downloadServerExec_installs [OF this]
  show "\<exists>w'. downloadServerExec rt storage update w = Some (Inr (execPath storage), w')
              \<and> files w' (execPath storage) = Some \<lparr>content = bytes, mode = mode_755\<rparr>
              \<and> files w' (execPath storage @ ''.tmp'') = None"
    by blast
next
  assume "fetchLatestRelease rt w = Some (Inr latest, w4)
      \<and> (force \<or> files w (binaryPath storage) = None
         \<or> \<not> same_tag (stored_json (parse_meta rt) w (metaPath_single storage))
                      (latest_tag latest))
      \<and> chain (net w) (downloadUrl latest) vs payload
      \<and> steps_succeed w (binaryPath storage) (metaPath_single storage)"
  then have "fetchLatestRelease rt w = Some (Inr latest, w4)"
    "force \<or> files w (binaryPath storage) = None
       \<or> \<not> same_tag (stored_json (parse_meta rt) w (metaPath_single storage)) (latest_tag latest)"
    "chain (net w) (downloadUrl latest) vs payload"
    "steps_succeed w (binaryPath storage) (metaPath_single storage)"
    by blast+
  from ensureDownloadedBinary_installs [OF this]
  show "\<exists>w'. ensureDownloadedBinary rt storage force w = Some (Inr (binaryPath storage), w')
              \<and> files w' (binaryPath storage) = Some \<lparr>content = payload, mode = mode_755\<rparr>
              \<and> files w' (binaryPath storage @ ''.tmp'') = None"
    by blast
qed

text \<open>
  A first install into an empty storage directory puts the release at the final path with
  mode 0o755 and leaves no temporary file. When the disk fills up after four bytes, the
  install ends with that error, the final path is still empty and the four bytes are at the
  temporary path.
\<close>

theorem final_path_is_settled_witness:
  "(\<exists>w'. downloadServerExec ex_rt ex_storage False (ex_empty ex_net)
            = Some (Inr (execPath ex_storage), w')
          \<and> files w' (execPath ex_storage) = Some \<lparr>content = ''PHAR 1.2.0'', mode = mode_755\<rparr>
          \<and> files w' (execPath ex_storage @ ''.tmp'') = None
          \<and> installed w' (execPath ex_storage))
   \<and> (\<exists>w'. ensureDownloadedBinary ex_rt ex_storage False (ex_empty ex_net)
            = Some (Inr (binaryPath ex_storage), w')
          \<and> files w' (binaryPath ex_storage) = Some \<lparr>content = ''PHAR 1.2.0'', mode = mode_755\<rparr>
          \<and> files w' (binaryPath ex_storage @ ''.tmp'') = None
          \<and> installed w' (binaryPath ex_storage))
   \<and> downloadServerExec ex_rt ex_storage False w_full
       = Some (Inl (Thrown ''ENOSPC''), w_full_after)
   \<and> settled w_full (Inl (Thrown ''ENOSPC'')) w_full_after (execPath ex_storage)
   \<and> files w_full_after (execPath ex_storage) = None
   \<and> files w_full_after (execPath ex_storage @ ''.tmp'')
       = Some \<lparr>content = ''PHAR'', mode = default_mode\<rparr>"
proof -
  let ?latest = "\<lparr>latest_tag = ''v1.2.0'', downloadUrl = ''https://example.org/phar''\<rparr>"
  let ?asset = "\<lparr>asset_tag = ''v1.2.0'', asset_url = ''https://example.org/phar''\<rparr>"
  let ?e1 = "sent latest_release_url json_headers (ex_empty ex_net)"
  let ?e2 = "sent (releases_url SERVER_REPO) json_headers (ex_empty ex_net)"
  let ?vs = "[''https://cdn.example.org/phar'']"
  have i: "installed (ex_empty ex_net) p" for p by (simp add: installed_def)
  have c1: "chain (net (ex_empty ex_net)) (downloadUrl ?latest) ?vs ''PHAR 1.2.0''"
    using ex_chain by simp
  have c2: "chain (net (ex_empty ex_net)) (asset_url ?asset) ?vs ''PHAR 1.2.0''"
    using ex_chain by simp
  have l1: "fetchLatestRelease ex_rt (ex_empty ex_net) = Some (Inr ?latest, ?e1)"
    by (simp add: ex_lookup_single)
  have l2: "fetchLatestReleaseAsset ex_rt SERVER_REPO SERVER_ASSET (ex_empty ex_net)
              = Some (Inr ?asset, ?e2)"
    by (simp add: ex_lookup)
  note t = final_path_is_settled [where rt = ex_rt and storage = ex_storage
      and w = "ex_empty ex_net" and update = False and force = False
      and asset = ?asset and ?w3.0 = ?e2 and us = ?vs and bytes = "''PHAR 1.2.0''"
      and latest = ?latest and ?w4.0 = ?e1 and vs = ?vs and payload = "''PHAR 1.2.0''"]
  from t [THEN conjunct2, THEN conjunct2, THEN conjunct1] l2 c2 obtain wa where a:
    "downloadServerExec ex_rt ex_storage False (ex_empty ex_net)
       = Some (Inr (execPath ex_storage), wa)"
    "files wa (execPath ex_storage) = Some \<lparr>content = ''PHAR 1.2.0'', mode = mode_755\<rparr>"
    "files wa (execPath ex_storage @ ''.tmp'') = None"
    by auto
  from t [THEN conjunct2, THEN conjunct2, THEN conjunct2] l1 c1 obtain wb where b:
    "ensureDownloadedBinary ex_rt ex_storage False (ex_empty ex_net)
       = Some (Inr (binaryPath ex_storage), wb)"
    "files wb (binaryPath ex_storage) = Some \<lparr>content = ''PHAR 1.2.0'', mode = mode_755\<rparr>"
    "files wb (binaryPath ex_storage @ ''.tmp'') = None"
    by auto
  from t [where r = "Inr (execPath ex_storage)" and w' = wa, THEN conjunct1] a(1) i
  have k1: "installed wa (execPath ex_storage)" by simp
  from t [where ?r2.0 = "Inr (binaryPath ex_storage)" and ?w2.0 = wb,
      THEN conjunct2, THEN conjunct1] b(1) i
  have k2: "installed wb (binaryPath ex_storage)" by simp
  note k = k1 k2
  from final_path_is_settled [where rt = ex_rt and storage = ex_storage and update = False
      and w = w_full and r = "Inl (Thrown ''ENOSPC'')" and w' = w_full_after, THEN conjunct1]
    full_run
  have s: "settled w_full (Inl (Thrown ''ENOSPC'')) w_full_after (execPath ex_storage)"
    by simp
  from a k(1) have 1: "\<exists>w'. downloadServerExec ex_rt ex_storage False (ex_empty ex_net)
            = Some (Inr (execPath ex_storage), w')
          \<and> files w' (execPath ex_storage) = Some \<lparr>content = ''PHAR 1.2.0'', mode = mode_755\<rparr>
          \<and> files w' (execPath ex_storage @ ''.tmp'') = None
          \<and> installed w' (execPath ex_storage)"
    by blast
  from b k(2) have 2: "\<exists>w'. ensureDownloadedBinary ex_rt ex_storage False (ex_empty ex_net)
            = Some (Inr (binaryPath ex_storage), w')
          \<and> files w' (binaryPath ex_storage) = Some \<lparr>content = ''PHAR 1.2.0'', mode = mode_755\<rparr>
          \<and> files w' (binaryPath ex_storage @ ''.tmp'') = None
          \<and> installed w' (binaryPath ex_storage)"
    by blast
  from 1 2 full_run s w_full_after_files show ?thesis by (intro conjI)
qed

text \<open>
  C6 as stated fails: where \<open>chmod\<close> is refused, a first install ends with that error after
  the rename, and the final path holds the complete download with the mode it was created
  with, which is not 0o755.
\<close>

theorem chmod_rejection_counterexample:
  "observe (execPath ex_storage) (downloadServerExec ex_rt ex_storage False w_noexec)
     = Some (Inl (Thrown ''EPERM''),
             [''https://example.org/phar'', ''https://cdn.example.org/phar''],
             Some \<lparr>content = ''PHAR 1.2.0'', mode = default_mode\<rparr>)
   \<and> default_mode \<noteq> mode_755"
  by (simp add: noexec_run) (simp add: default_mode_def mode_755_def)

subsection \<open>The lifecycle\<close>




text \<open>
  C9. When a formatting request throws, the middleware returns null instead of the error
  and appends the error to the output channel; the single-file variant does so whenever
  its channel exists.
\<close>

theorem formatting_error_is_swallowed:
  assumes "next document options token = Inl error"
  shows "provideDocumentFormattingEdits document options token next st
           = (Inr None, st\<lparr>output_lines := output_lines st @ [errorText error]\<rparr>)
       \<and> fst (provideDocumentFormattingEdits_single document options token next channel)
           = Inr None
       \<and> (\<forall>lines. channel = Some lines \<longrightarrow>
            (\<exists>more. snd (provideDocumentFormattingEdits_single document options token next channel)
                      = Some (lines @ (''[formatting] '' @ error_message error) # more)))"
  using assms
  by (simp add: provideDocumentFormattingEdits_def provideDocumentFormattingEdits_single_def
        split: option.splits)

text \<open>A request that fails with a stack.\<close>

theorem formatting_error_is_swallowed_witness:
  "provideDocumentFormattingEdits ''a.php'' 4 False ex_next ex_extension
     = (Inr None, ex_extension\<lparr>output_lines := [''Error: server crashed at format'']\<rparr>)
   \<and> provideDocumentFormattingEdits_single ''a.php'' 4 False ex_next (Some [])
     = (Inr None, Some [''[formatting] server crashed'', ''Error: server crashed at format''])"
proof -
  have n: "ex_next ''a.php'' 4 False
             = Inl (Error_obj ''server crashed'' (Some ''Error: server crashed at format''))"
    by (simp add: ex_next_def)
  have o: "output_lines ex_extension = []" by (simp add: ex_extension_def)
  from formatting_error_is_swallowed [of ex_next "''a.php''" 4 False _ ex_extension "Some []", OF n]
  show ?thesis
    by (simp add: o) (simp add: provideDocumentFormattingEdits_single_def n)
qed

end
